theory Spec2Isabelle
  imports Main "HOL-Library.Word"
begin

unbundle bit_operations_syntax

section \<open>Effects of the controller\<close>

text \<open>
  The controller acts on the world through calls whose targets live outside the
  modelled packages: work queues, the logger, the status writer, the graph layer.
  Every function of the model returns the calls it makes, in program order, as a
  list of effects beside its ordinary result.
\<close>

type_synonym byte = "8 word"

datatype level = Debug | Info | Warn | Error

text \<open>
  The object-type tags that the naming functions hand to the logger. Their string
  values are constants of the package that are declared outside the modelled files,
  so they are kept as an enumeration.
\<close>

datatype objType =
    L4VS | L4VIP | L4Pool | L4AdvPool | VIP | DataScript | PG | Pool
  | HTTPRedirectPolicy | HeaderRewritePolicy | SNIVS | HTTPPS | EVHVS
  | TLSKeyCert | CACert | PKIProfile | PassthroughVS

text \<open>
  String constants of \<^verbatim>\<open>lib/constants.go\<close> whose values are not in the modelled files:
  the status message for duplicate backends, the two messages of the namespace replay and
  the three conditions of the StatefulSet status.
\<close>

datatype lib_const =
    DuplicateBackends | NsFilterAdd | NsFilterDelete
  | ObjectDeletionStartStatus | ObjectDeletionDoneStatus | ObjectDeletionTimeoutStatus

datatype logarg = LStr string | LNum int | LType objType | LConst lib_const | LOpaque

datatype queue = ObjectIngestionLayer | GraphLayer

datatype ConditionStatus = ConditionTrue | ConditionFalse | ConditionUnknown

datatype chan = StaticRouteSyncChan | ConfigDeleteSyncChan

text \<open>
  A \<^verbatim>\<open>select\<close> on a completion channel and a timer is decided by the environment:
  either the signal arrives first or the timer fires first.
\<close>

datatype select_outcome = Signalled | TimedOut

text \<open>
  The desired graph of one model, as far as \<^verbatim>\<open>DeleteModels\<close> builds it: the flag
  \<^verbatim>\<open>IsVrf\<close>, the names of the VRF nodes added by \<^verbatim>\<open>AddModelNode\<close> and the
  checksum set by \<^verbatim>\<open>CalculateCheckSum\<close>.
\<close>

record AviObjectGraph =
  IsVrf :: bool
  modelNodes :: "string list"
  GraphChecksum :: "32 word"

datatype effect =
    Log level string "logarg list"
  | AddRateLimited queue "32 word" string
  | UpdateRouteStatusWithErrMsg string string string lib_const
  | AddNamespaceToFilter string
  | DeleteNamespaceFromFilter string
  | checkSvcForGatewayPortConflict string
  | checkSvcForSvcApiGatewayPortConflict string
  | InformerStatusUpdatesForSvcApiGateway string
  | InformerStatusUpdatesForGateway string
  | DequeueIngestion string bool
  | PublishKeyToRestLayer string string
  | SetStaticRouteSyncHandler
  | SetConfigDeleteSyncChan
  | Select chan nat select_outcome
  | Save string "AviObjectGraph option"
  | AddStatefulSetStatus lib_const ConditionStatus
  | DeleteNPLAnnotation string string string
  | Panic

section \<open>Package lib: process environment and package variables\<close>

text \<open>
  \<open>Getenv\<close> is \<^verbatim>\<open>os.Getenv\<close> (the empty string for an unset variable); the
  other fields are the package-level variables of \<^verbatim>\<open>lib\<close> that the modelled
  functions read and the library functions they call: \<^verbatim>\<open>sha1.Sum\<close>,
  \<^verbatim>\<open>utils.Bkt\<close>, \<^verbatim>\<open>strings.EqualFold\<close> and the result of \<^verbatim>\<open>GetCNIPlugin\<close>.
  The last five fields are string constants of \<^verbatim>\<open>lib/constants.go\<close> and
  \<^verbatim>\<open>utils\<close> whose values neither the modelled files nor the specification give.
\<close>

record lib_env =
  Getenv :: "string \<Rightarrow> string"
  NamePrefix :: string
  layer7Only :: bool
  VRFContext :: string
  CloudType :: string
  ShardVSPrefix :: string
  GetCNIPlugin :: string
  sha1_Sum :: "byte list \<Rightarrow> byte list"
  Bkt :: "string \<Rightarrow> 32 word \<Rightarrow> 32 word"
  EqualFold :: "string \<Rightarrow> string \<Rightarrow> bool"
  autoAnnotateService :: string
  CLOUD_NSXT :: string
  CLOUD_VCENTER :: string
  NCP_CNI :: string
  GlobalVRF :: string

text \<open>
  Constants of \<^verbatim>\<open>lib/constants.go\<close> and \<^verbatim>\<open>utils\<close>, which are not among the
  modelled files.
\<close>

definition AVI_OBJ_NAME_MAX_LENGTH :: nat where
  \<comment> \<open>Modelled from the spec: the constant of lib/constants.go; the specification
      gives the limit of an object name as 255 characters.\<close>
  "AVI_OBJ_NAME_MAX_LENGTH = 255"

definition ADVANCED_L4 :: string where
  \<comment> \<open>Modelled from the spec: name of the environment variable, as listed there.\<close>
  "ADVANCED_L4 = ''ADVANCED_L4''"

definition ENABLE_EVH :: string where
  \<comment> \<open>Modelled from the spec: name of the environment variable, as listed there.\<close>
  "ENABLE_EVH = ''ENABLE_EVH''"

definition SERVICES_API :: string where
  \<comment> \<open>Modelled from the spec: name of the environment variable, as listed there.\<close>
  "SERVICES_API = ''SERVICES_API''"

definition CLUSTER_NAME :: string where
  \<comment> \<open>Modelled from the spec: name of the environment variable, as listed there.\<close>
  "CLUSTER_NAME = ''CLUSTER_NAME''"

definition CLUSTER_ID :: string where
  \<comment> \<open>Modelled from the spec: name of the environment variable, as listed there.\<close>
  "CLUSTER_ID = ''CLUSTER_ID''"

definition SERVICE_TYPE :: string where
  \<comment> \<open>Modelled from the spec: name of the environment variable, as listed there.\<close>
  "SERVICE_TYPE = ''SERVICE_TYPE''"

definition DISABLE_STATIC_ROUTE_SYNC :: string where
  \<comment> \<open>Modelled from the spec: name of the environment variable, as listed there.\<close>
  "DISABLE_STATIC_ROUTE_SYNC = ''DISABLE_STATIC_ROUTE_SYNC''"

definition NODE_PORT :: string where
  \<comment> \<open>Modelled from the spec: the value NodePort of SERVICE_TYPE.\<close>
  "NODE_PORT = ''NodePort''"

definition NodePortLocal :: string where
  \<comment> \<open>Modelled from the spec: the value NodePortLocal of SERVICE_TYPE.\<close>
  "NodePortLocal = ''NodePortLocal''"

definition PassthroughPrefix :: string where
  \<comment> \<open>Modelled from the spec: passthrough shards are named
      cluster--Shared-Passthrough-<idx> there.\<close>
  "PassthroughPrefix = ''Shared-Passthrough-''"

subsection \<open>Library functions of Go used by the package\<close>

definition ParseBool_ok :: "string \<Rightarrow> bool" where
  \<comment> \<open>\<^verbatim>\<open>ok, _ := strconv.ParseBool(s)\<close>: the value, false on a syntax error.\<close>
  "ParseBool_ok s = (s \<in> set [''1'', ''t'', ''T'', ''true'', ''TRUE'', ''True''])"

fun split_on :: "char \<Rightarrow> string \<Rightarrow> string list" where
  \<comment> \<open>\<^verbatim>\<open>strings.Split(s, sep)\<close> for a separator of one byte.\<close>
  "split_on c [] = [[]]"
| "split_on c (x # xs) =
     (if x = c then [] # split_on c xs
      else (case split_on c xs of [] \<Rightarrow> [[x]] | p # ps \<Rightarrow> (x # p) # ps))"

definition ReplaceAll_slash :: "string \<Rightarrow> string" where
  \<comment> \<open>\<^verbatim>\<open>strings.ReplaceAll(path, "/", "_")\<close>\<close>
  "ReplaceAll_slash path = map (\<lambda>c. if c = CHR ''/'' then CHR ''_'' else c) path"

fun HasPrefix :: "string \<Rightarrow> string \<Rightarrow> bool" where
  \<comment> \<open>\<^verbatim>\<open>strings.HasPrefix(s, prefix)\<close>, arguments in Go's order.\<close>
  "HasPrefix s [] = True"
| "HasPrefix [] (p # ps) = False"
| "HasPrefix (x # xs) (p # ps) = (x = p \<and> HasPrefix xs ps)"

fun digits :: "nat \<Rightarrow> string" where
  "digits n =
     (if n < 10 then [''0123456789'' ! n]
      else digits (n div 10) @ [''0123456789'' ! (n mod 10)])"

declare digits.simps [simp del]

definition Itoa :: "int \<Rightarrow> string" where
  \<comment> \<open>\<^verbatim>\<open>strconv.Itoa\<close>\<close>
  "Itoa i = (if i < 0 then CHR ''-'' # digits (nat (- i)) else digits (nat i))"

definition hextable :: string where
  "hextable = ''0123456789abcdef''"

definition hex_EncodeToString :: "byte list \<Rightarrow> string" where
  \<comment> \<open>\<^verbatim>\<open>hex.EncodeToString\<close>: two lower-case digits for each byte, high nibble first.\<close>
  "hex_EncodeToString src =
     concat (map (\<lambda>v. [hextable ! unat (drop_bit 4 v), hextable ! unat (v AND 0x0f)]) src)"

definition bytes :: "string \<Rightarrow> byte list" where
  \<comment> \<open>\<^verbatim>\<open>[]byte(s)\<close>\<close>
  "bytes s = map (\<lambda>c. of_char c) s"

subsection \<open>Naming: lib.go\<close>

definition ShardSizeMap :: "string \<rightharpoonup> 32 word" where
  "ShardSizeMap =
     [''LARGE'' \<mapsto> 8, ''MEDIUM'' \<mapsto> 4, ''SMALL'' \<mapsto> 1, ''DEDICATED'' \<mapsto> 0]"

definition CheckObjectNameLength :: "string \<Rightarrow> objType \<Rightarrow> bool \<times> effect list" where
  "CheckObjectNameLength objName objType =
     (if length objName > AVI_OBJ_NAME_MAX_LENGTH
      then (True,
            [Log Warn ''%s name %s exceeds maximum length limit of %d characters for AVI Object''
               [LType objType, LStr objName, LNum (int AVI_OBJ_NAME_MAX_LENGTH)]])
      else (False, []))"

definition GetAdvancedL4 :: "lib_env \<Rightarrow> bool" where
  "GetAdvancedL4 e = (let advanceL4 = Getenv e ADVANCED_L4 in
     if advanceL4 = ''true'' then True else False)"

definition IsEvhEnabled :: "lib_env \<Rightarrow> bool" where
  "IsEvhEnabled e = (let evh = Getenv e ENABLE_EVH in
     if evh = ''true'' then True else False)"

definition UseServicesAPI :: "lib_env \<Rightarrow> bool" where
  "UseServicesAPI e = (if ParseBool_ok (Getenv e SERVICES_API) then True else False)"

definition GetLayer7Only :: "lib_env \<Rightarrow> bool" where
  "GetLayer7Only e = layer7Only e"

definition GetClusterID :: "lib_env \<Rightarrow> string" where
  "GetClusterID e = (let clusterID = Getenv e CLUSTER_ID in
     if clusterID \<noteq> [] then clusterID else [])"

definition GetClusterIDSplit :: "lib_env \<Rightarrow> string" where
  "GetClusterIDSplit e = (let clusterID = GetClusterID e in
     if clusterID \<noteq> []
     then (let clusterName = split_on CHR '':'' clusterID in
           if length clusterName > 1 then hd clusterName else [])
     else [])"

definition GetClusterName :: "lib_env \<Rightarrow> string" where
  "GetClusterName e =
     (if GetAdvancedL4 e then GetClusterIDSplit e
      else (let clusterName = Getenv e CLUSTER_NAME in
            if clusterName \<noteq> [] then clusterName else []))"

definition SetNamePrefix :: "lib_env \<Rightarrow> lib_env" where
  "SetNamePrefix e = e\<lparr>NamePrefix := GetClusterName e @ ''--''\<rparr>"

definition GetNamePrefix :: "lib_env \<Rightarrow> string" where
  "GetNamePrefix e = NamePrefix e"

definition Encode :: "lib_env \<Rightarrow> string \<Rightarrow> objType \<Rightarrow> string \<times> effect list" where
  "Encode e s objType =
     (if \<not> IsEvhEnabled e \<or> GetAdvancedL4 e
      then (s, snd (CheckObjectNameLength s objType))
      else (let hash = sha1_Sum e (bytes s);
                encodedStr = GetNamePrefix e @ hex_EncodeToString hash
            in (encodedStr, snd (CheckObjectNameLength encodedStr objType))))"

definition GetModelName :: "string \<Rightarrow> string \<Rightarrow> string" where
  "GetModelName namespace objectName = namespace @ ''/'' @ objectName"

text \<open>All L4 object names.\<close>

definition GetL4VSName :: "lib_env \<Rightarrow> string \<Rightarrow> string \<Rightarrow> string \<times> effect list" where
  "GetL4VSName e svcName namespace = Encode e (NamePrefix e @ namespace @ ''-'' @ svcName) L4VS"

definition GetL4VSVipName :: "lib_env \<Rightarrow> string \<Rightarrow> string \<Rightarrow> string \<times> effect list" where
  "GetL4VSVipName e svcName namespace = Encode e (NamePrefix e @ namespace @ ''-'' @ svcName) L4VIP"

definition GetL4PoolName ::
  "lib_env \<Rightarrow> string \<Rightarrow> string \<Rightarrow> 32 word \<Rightarrow> string \<times> effect list" where
  "GetL4PoolName e svcName namespace port =
     (let poolName = NamePrefix e @ namespace @ ''-'' @ svcName @ ''--'' @ Itoa (sint port)
      in Encode e poolName L4Pool)"

definition GetAdvL4PoolName ::
  "lib_env \<Rightarrow> string \<Rightarrow> string \<Rightarrow> string \<Rightarrow> 32 word \<Rightarrow> string \<times> effect list" where
  "GetAdvL4PoolName e svcName namespace gwName port =
     (let poolName = NamePrefix e @ namespace @ ''-'' @ svcName @ ''-'' @ gwName @ ''--''
                       @ Itoa (sint port)
      in Encode e poolName L4AdvPool)"

text \<open>All L7 object names.\<close>

definition GetVsVipName :: "string \<Rightarrow> string \<times> effect list" where
  "GetVsVipName vsName =
     (let vsVipName = vsName in (vsName, snd (CheckObjectNameLength vsVipName VIP)))"

definition GetL7InsecureDSName :: "string \<Rightarrow> string \<times> effect list" where
  "GetL7InsecureDSName vsName =
     (let l7DSName = vsName in (l7DSName, snd (CheckObjectNameLength l7DSName DataScript)))"

definition GetL7SharedPGName :: "string \<Rightarrow> string \<times> effect list" where
  "GetL7SharedPGName vsName =
     (let l7PGName = vsName in (l7PGName, snd (CheckObjectNameLength l7PGName PG)))"

definition GetL7PoolName ::
  "lib_env \<Rightarrow> string \<Rightarrow> string \<Rightarrow> string \<Rightarrow> string \<Rightarrow> string list \<Rightarrow> string \<times> effect list" where
  "GetL7PoolName e priorityLabel0 namespace ingName infrasetting args =
     (let priorityLabel = ReplaceAll_slash priorityLabel0;
          poolName0 =
            (if infrasetting \<noteq> []
             then NamePrefix e @ infrasetting @ ''-'' @ priorityLabel @ ''-'' @ namespace @ ''-'' @ ingName
             else NamePrefix e @ priorityLabel @ ''-'' @ namespace @ ''-'' @ ingName);
          poolName =
            (if length args > 0 then (let svcName = hd args in poolName0 @ ''-'' @ svcName)
             else poolName0)
      in Encode e poolName Pool)"

definition GetL7HttpRedirPolicy :: "string \<Rightarrow> string \<times> effect list" where
  "GetL7HttpRedirPolicy vsName =
     (let httpRedirectPolicy = vsName
      in (httpRedirectPolicy, snd (CheckObjectNameLength httpRedirectPolicy HTTPRedirectPolicy)))"

definition GetHeaderRewritePolicy :: "string \<Rightarrow> string \<Rightarrow> string \<times> effect list" where
  "GetHeaderRewritePolicy vsName localHost =
     (let headerWriterPolicy = vsName @ ''--host-hdr-re-write'' @ ''--'' @ localHost
      in (headerWriterPolicy, snd (CheckObjectNameLength headerWriterPolicy HeaderRewritePolicy)))"

definition GetSniNodeName :: "lib_env \<Rightarrow> string \<Rightarrow> string \<Rightarrow> string \<times> effect list" where
  "GetSniNodeName e infrasetting sniHostName =
     (let namePrefix = (if infrasetting \<noteq> [] then NamePrefix e @ infrasetting @ ''-''
                        else NamePrefix e)
      in Encode e (namePrefix @ sniHostName) SNIVS)"

definition GetSniPoolName ::
  "lib_env \<Rightarrow> string \<Rightarrow> string \<Rightarrow> string \<Rightarrow> string \<Rightarrow> string \<Rightarrow> string list \<Rightarrow> string \<times> effect list" where
  "GetSniPoolName e ingName namespace host path0 infrasetting args =
     (let path = ReplaceAll_slash path0;
          poolName0 =
            (if infrasetting \<noteq> []
             then NamePrefix e @ infrasetting @ ''-'' @ namespace @ ''-'' @ host @ path @ ''-'' @ ingName
             else NamePrefix e @ namespace @ ''-'' @ host @ path @ ''-'' @ ingName);
          poolName =
            (if length args > 0 then (let svcName = hd args in poolName0 @ ''-'' @ svcName)
             else poolName0)
      in (poolName, snd (CheckObjectNameLength poolName Pool)))"

definition GetSniHttpPolName ::
  "lib_env \<Rightarrow> string \<Rightarrow> string \<Rightarrow> string \<Rightarrow> string \<Rightarrow> string \<Rightarrow> string \<times> effect list" where
  "GetSniHttpPolName e ingName namespace host path0 infrasetting =
     (let path = ReplaceAll_slash path0 in
      if infrasetting \<noteq> []
      then Encode e (NamePrefix e @ infrasetting @ ''-'' @ namespace @ ''-'' @ host @ path @ ''-'' @ ingName) HTTPPS
      else Encode e (NamePrefix e @ namespace @ ''-'' @ host @ path @ ''-'' @ ingName) HTTPPS)"

definition GetSniPGName ::
  "lib_env \<Rightarrow> string \<Rightarrow> string \<Rightarrow> string \<Rightarrow> string \<Rightarrow> string \<Rightarrow> string \<times> effect list" where
  "GetSniPGName e ingName namespace host path0 infrasetting =
     (let path = ReplaceAll_slash path0;
          sniPGName =
            (if infrasetting \<noteq> []
             then NamePrefix e @ infrasetting @ ''-'' @ namespace @ ''-'' @ host @ path @ ''-'' @ ingName
             else NamePrefix e @ namespace @ ''-'' @ host @ path @ ''-'' @ ingName)
      in (sniPGName, snd (CheckObjectNameLength sniPGName PG)))"

text \<open>EVH children.\<close>

definition GetEvhPoolNameNoEncoding ::
  "lib_env \<Rightarrow> string \<Rightarrow> string \<Rightarrow> string \<Rightarrow> string \<Rightarrow> string \<Rightarrow> string \<Rightarrow> string" where
  "GetEvhPoolNameNoEncoding e ingName namespace host path0 infrasetting svcName =
     (let path = ReplaceAll_slash path0;
          namePrefix = (if infrasetting \<noteq> [] then NamePrefix e @ infrasetting @ ''-''
                        else NamePrefix e);
          poolName = namePrefix @ namespace @ ''-'' @ host @ path @ ''-'' @ ingName @ ''-'' @ svcName
      in poolName)"

definition GetEvhPoolName ::
  "lib_env \<Rightarrow> string \<Rightarrow> string \<Rightarrow> string \<Rightarrow> string \<Rightarrow> string \<Rightarrow> string \<Rightarrow> string \<times> effect list" where
  "GetEvhPoolName e ingName namespace host path infrasetting svcName =
     (let poolName = GetEvhPoolNameNoEncoding e ingName namespace host path infrasetting svcName
      in Encode e poolName Pool)"

definition GetEvhNodeName :: "lib_env \<Rightarrow> string \<Rightarrow> string \<Rightarrow> string \<times> effect list" where
  "GetEvhNodeName e host infrasetting =
     (if infrasetting \<noteq> [] then Encode e (NamePrefix e @ infrasetting @ ''-'' @ host) EVHVS
      else Encode e (NamePrefix e @ host) EVHVS)"

definition GetEvhPGName ::
  "lib_env \<Rightarrow> string \<Rightarrow> string \<Rightarrow> string \<Rightarrow> string \<Rightarrow> string \<Rightarrow> string \<times> effect list" where
  "GetEvhPGName e ingName namespace host path0 infrasetting =
     (let path = ReplaceAll_slash path0 in
      if infrasetting \<noteq> []
      then Encode e (NamePrefix e @ infrasetting @ ''-'' @ namespace @ ''-'' @ host @ path @ ''-'' @ ingName) PG
      else Encode e (NamePrefix e @ namespace @ ''-'' @ host @ path @ ''-'' @ ingName) PG)"

definition GetTLSKeyCertNodeName :: "lib_env \<Rightarrow> string \<Rightarrow> string \<Rightarrow> string \<times> effect list" where
  "GetTLSKeyCertNodeName e infrasetting sniHostName =
     (let namePrefix = (if infrasetting \<noteq> [] then NamePrefix e @ infrasetting @ ''-''
                        else NamePrefix e)
      in Encode e (namePrefix @ sniHostName) TLSKeyCert)"

definition GetCACertNodeName :: "lib_env \<Rightarrow> string \<Rightarrow> string \<Rightarrow> string \<times> effect list" where
  "GetCACertNodeName e infrasetting sniHostName =
     (let namePrefix = (if infrasetting \<noteq> [] then NamePrefix e @ infrasetting @ ''-''
                        else NamePrefix e);
          keycertname = namePrefix @ sniHostName
      in Encode e (keycertname @ ''-cacert'') CACert)"

definition GetPoolPKIProfileName :: "lib_env \<Rightarrow> string \<Rightarrow> string \<times> effect list" where
  "GetPoolPKIProfileName e poolName = Encode e (poolName @ ''-pkiprofile'') PKIProfile"

definition PassthroughShardSize :: "lib_env \<Rightarrow> 32 word" where
  "PassthroughShardSize e =
     (let shardVsSize = Getenv e ''PASSTHROUGH_SHARD_SIZE'' in
      case ShardSizeMap shardVsSize of Some shardSize \<Rightarrow> shardSize | None \<Rightarrow> 1)"

definition GetPassthroughShardVSName :: "lib_env \<Rightarrow> string \<Rightarrow> string \<Rightarrow> string \<times> effect list" where
  "GetPassthroughShardVSName e s key =
     (let shardSize = PassthroughShardSize e;
          shardVsPrefix = GetClusterName e @ ''--'' @ PassthroughPrefix;
          vsNum = Bkt e s shardSize;
          vsName = shardVsPrefix @ Itoa (uint vsNum);
          r = Encode e vsName PassthroughVS
      in (fst r, Log Info ''key: %s, msg: ShardVSName: %s'' [LStr key, LStr vsName] # snd r))"

section \<open>Kubernetes objects\<close>

text \<open>
  \<^verbatim>\<open>map[string]string\<close>; \<open>None\<close> is the nil map, which \<^verbatim>\<open>reflect.DeepEqual\<close>
  tells apart from an empty one.
\<close>

type_synonym strmap = "(string \<rightharpoonup> string) option"

record ObjectMeta =
  Name :: string
  Namespace :: string
  ResourceVersion :: string
  Labels :: strmap
  Annotations :: strmap

text \<open>
  An object with a \<^verbatim>\<open>Spec\<close>: an Ingress, whose spec the controller only
  serialises and hashes, or a Route, whose spec it also inspects.
\<close>

record 's SpecObject = ObjectMeta +
  Spec :: 's

record RouteTargetReference =
  Kind :: string
  BackendName :: string
  Weight :: "32 word option"

text \<open>
  The fields of \<^verbatim>\<open>routev1.RouteSpec\<close> that name the route and its backends; the
  remaining ones (port, TLS, wildcard policy) live in the extension of the record.
\<close>

record RouteSpec =
  Host :: string
  Path :: string
  To :: RouteTargetReference
  AlternateBackends :: "RouteTargetReference list"

record Service = ObjectMeta +
  SpecType :: string

record 'd Secret = ObjectMeta +
  Data :: 'd

record 'u Endpoints = ObjectMeta +
  Subsets :: 'u

record 'p Pod = ObjectMeta +
  PodSpecStatus :: 'p

record NodeAddress =
  Type :: string
  Address :: string

record Node = ObjectMeta +
  PodCIDR :: string
  Addresses :: "NodeAddress list"

text \<open>
  A dynamic (unstructured) object, given by what \<^verbatim>\<open>unstructured.NestedStringMap\<close>
  at \<^verbatim>\<open>"spec"\<close> and \<^verbatim>\<open>unstructured.NestedString\<close> at \<^verbatim>\<open>"host"\<close> return for
  it: the value, whether it was found, and the error if any.
\<close>

record Unstructured =
  NestedStringMap_spec :: "(string \<rightharpoonup> string) \<times> bool \<times> string option"
  NestedString_host :: "string \<times> bool \<times> string option"

text \<open>
  What an informer hands to a delete handler: the object, a tombstone
  (\<^verbatim>\<open>cache.DeletedFinalStateUnknown\<close>) holding the object, a tombstone holding
  something else, or something that is neither.
\<close>

datatype 'a deleted = Obj 'a | Tombstone 'a | TombstoneOther | NoTombstone

section \<open>Package utils and the informers, as the controller reads them\<close>

text \<open>
  Package \<^verbatim>\<open>utils\<close> is not among the modelled files. Its functions are
  parameters: the hash and the serialiser, the three forms of the namespace filter
  check, and the listers of the informers (\<open>None\<close> for an informer that is nil).
  A lister maps a namespace (the empty string for all namespaces) to an error or
  to the objects it holds.
\<close>

record 's utils_env =
  Hash :: "string \<Rightarrow> 32 word"
  Stringify_spec :: "'s \<Rightarrow> string"
  Stringify_map :: "strmap \<Rightarrow> string"
  CheckIfNamespaceAccepted :: "string \<Rightarrow> bool"
  CheckIfNamespaceAccepted_labels :: "string \<Rightarrow> strmap \<Rightarrow> bool \<Rightarrow> bool"
  IsServiceNSValid :: "string \<Rightarrow> bool"
  GetAKONamespace :: string
  IngressInformer :: "(string \<Rightarrow> string + ObjectMeta list) option"
  RouteInformer :: "(string \<Rightarrow> string + ObjectMeta list) option"
  ServiceInformer :: "(string \<Rightarrow> string + Service list) option"
  GatewayLister :: "string \<Rightarrow> string + ObjectMeta list"

text \<open>
  Modelled from the spec: the constants of \<^verbatim>\<open>utils\<close> and \<^verbatim>\<open>lib\<close> that name
  the kinds of keys, and the name of the controller's own secret. The specification
  lists the kinds of a key and names the secret \<^verbatim>\<open>avi-secret\<close>.
\<close>

datatype kind =
    Ingress | OshiftRoute | L4LBService | ServiceKind | EndpointsKind | PodKind | NodeObj
  | IngressClass | HostRule | HTTPRule | AviInfraSetting | Gateway | GatewayClass

fun kind_name :: "kind \<Rightarrow> string" where
  \<comment> \<open>Modelled from the spec: the kinds of an ingestion key.\<close>
  "kind_name Ingress = ''Ingress''"
| "kind_name OshiftRoute = ''Route''"
| "kind_name L4LBService = ''L4LBService''"
| "kind_name ServiceKind = ''Service''"
| "kind_name EndpointsKind = ''Endpoints''"
| "kind_name PodKind = ''Pod''"
| "kind_name NodeObj = ''Node''"
| "kind_name IngressClass = ''IngressClass''"
| "kind_name HostRule = ''HostRule''"
| "kind_name HTTPRule = ''HTTPRule''"
| "kind_name AviInfraSetting = ''AviInfraSetting''"
| "kind_name Gateway = ''Gateway''"
| "kind_name GatewayClass = ''GatewayClass''"

definition AviSecret :: string where
  \<comment> \<open>Modelled from the spec: the name of the secret holding the controller's credentials.\<close>
  "AviSecret = ''avi-secret''"

definition ObjKey :: "'a ObjectMeta_scheme \<Rightarrow> string" where
  \<comment> \<open>Modelled from the spec: \<^verbatim>\<open>utils.ObjKey\<close>, the part namespace/name of a key;
      built as \<^verbatim>\<open>cache.MetaNamespaceKeyFunc\<close> does, the name alone for an object
      without namespace.\<close>
  "ObjKey obj = (if Namespace obj \<noteq> [] then Namespace obj @ ''/'' @ Name obj else Name obj)"

definition SplitMetaNamespaceKey :: "string \<Rightarrow> string \<times> string \<times> bool" where
  \<comment> \<open>\<^verbatim>\<open>cache.SplitMetaNamespaceKey\<close>: namespace, name, and whether the key was
      malformed (the error).\<close>
  "SplitMetaNamespaceKey key =
     (case split_on CHR ''/'' key of
        [name] \<Rightarrow> ([], name, False)
      | [namespace, name] \<Rightarrow> (namespace, name, False)
      | _ \<Rightarrow> ([], [], True))"

section \<open>The ingestion layer: controller.go\<close>

record AviController =
  DisableSync :: bool

definition firstInternalIP :: "NodeAddress list \<Rightarrow> string" where
  \<comment> \<open>the loop \<^verbatim>\<open>for _, addr := range addrs\<close> that stops at the first InternalIP\<close>
  "firstInternalIP addrs =
     (case filter (\<lambda>addr. Type addr = ''InternalIP'') addrs of
        [] \<Rightarrow> [] | addr # _ \<Rightarrow> Address addr)"

definition isNodeUpdated :: "Node \<Rightarrow> Node \<Rightarrow> bool" where
  "isNodeUpdated oldNode newNode =
     (if ResourceVersion oldNode = ResourceVersion newNode then False
      else let oldAddrs = Addresses oldNode; newAddrs = Addresses newNode in
        if length oldAddrs \<noteq> length newAddrs then True
        else let oldaddr = firstInternalIP oldAddrs; newaddr = firstInternalIP newAddrs in
          if oldaddr \<noteq> newaddr then True
          else if PodCIDR oldNode \<noteq> PodCIDR newNode then True
          else let nodeLabelEq = (Labels oldNode = Labels newNode) in
            if \<not> nodeLabelEq then True else False)"

text \<open>Consider an ingress has been updated only if spec/annotation is updated.\<close>

definition isIngressUpdated :: "'s utils_env \<Rightarrow> 's SpecObject \<Rightarrow> 's SpecObject \<Rightarrow> bool" where
  "isIngressUpdated u oldIngress newIngress =
     (if ResourceVersion oldIngress = ResourceVersion newIngress then False
      else let oldSpecHash = Hash u (Stringify_spec u (Spec oldIngress));
               oldAnnotationHash = Hash u (Stringify_map u (Annotations oldIngress));
               newSpecHash = Hash u (Stringify_spec u (Spec newIngress));
               newAnnotationHash = Hash u (Stringify_map u (Annotations newIngress)) in
        if oldSpecHash \<noteq> newSpecHash \<or> oldAnnotationHash \<noteq> newAnnotationHash then True
        else False)"

text \<open>Consider a route has been updated only if spec/annotation is updated.\<close>

definition isRouteUpdated :: "'s utils_env \<Rightarrow> 's SpecObject \<Rightarrow> 's SpecObject \<Rightarrow> bool" where
  "isRouteUpdated u oldRoute newRoute =
     (if ResourceVersion oldRoute = ResourceVersion newRoute then False
      else let oldSpecHash = Hash u (Stringify_spec u (Spec oldRoute));
               newSpecHash = Hash u (Stringify_spec u (Spec newRoute)) in
        if oldSpecHash \<noteq> newSpecHash then True else False)"

definition isNamespaceUpdated :: "'s utils_env \<Rightarrow> ObjectMeta \<Rightarrow> ObjectMeta \<Rightarrow> bool" where
  "isNamespaceUpdated u oldNS newNS =
     (if ResourceVersion oldNS = ResourceVersion newNS then False
      else let oldLabelHash = Hash u (Stringify_map u (Labels oldNS));
               newLabelHash = Hash u (Stringify_map u (Labels newNS)) in
        if oldLabelHash \<noteq> newLabelHash then True else False)"

definition isServiceLBType :: "Service \<Rightarrow> bool" where
  "isServiceLBType svcObj = (if SpecType svcObj = ''LoadBalancer'' then True else False)"

definition validateAviSecret :: "'s utils_env \<Rightarrow> 'd Secret \<Rightarrow> bool" where
  "validateAviSecret u secret =
     (if Namespace secret = GetAKONamespace u \<and> Name secret = AviSecret then False else True)"

text \<open>
  The type assertion of a delete handler and its unwrapping of a tombstone; the two
  messages are the handler's own.
\<close>

definition fromDeleted :: "string \<Rightarrow> 'a deleted \<Rightarrow> effect list + 'a" where
  "fromDeleted notA obj =
     (case obj of
        Obj x \<Rightarrow> Inr x
      | Tombstone x \<Rightarrow> Inr x
      | TombstoneOther \<Rightarrow> Inl [Log Error notA [LOpaque]]
      | NoTombstone \<Rightarrow> Inl [Log Error ''couldn't get object from tombstone %#v'' [LOpaque]])"

fun HasValidBackends_loop ::
  "string list \<Rightarrow> RouteTargetReference list \<Rightarrow> string \<Rightarrow> string \<Rightarrow> bool \<times> effect list" where
  "HasValidBackends_loop svcList [] routeName key = (True, [])"
| "HasValidBackends_loop svcList (altBackend # rest) routeName key =
     (if BackendName altBackend \<in> set svcList
      then (False,
            [Log Warn ''key: %s, msg: multiple backends with name %s found for route: %s''
               [LStr key, LStr (BackendName altBackend), LStr routeName]])
      else HasValidBackends_loop (BackendName altBackend # svcList) rest routeName key)"

definition HasValidBackends ::
  "'m RouteSpec_scheme \<Rightarrow> string \<Rightarrow> string \<Rightarrow> string \<Rightarrow> bool \<times> effect list" where
  "HasValidBackends routeSpec routeName namespace key =
     (let toSvc = BackendName (To routeSpec); svcList = [toSvc]
      in HasValidBackends_loop svcList (AlternateBackends routeSpec) routeName key)"

definition AddIngressFromNSToIngestionQueue ::
  "lib_env \<Rightarrow> 's utils_env \<Rightarrow> 32 word \<Rightarrow> string \<Rightarrow> lib_const \<Rightarrow> effect list" where
  "AddIngressFromNSToIngestionQueue e u numWorkers namespace msg =
     (case IngressInformer u of
        None \<Rightarrow> [Panic]
      | Some lister \<Rightarrow>
         (case lister namespace of
            Inl err \<Rightarrow>
              [Log Error ''NS to ingress queue add: Error occurred while retrieving ingresss for namespace: %s''
                 [LStr namespace]]
          | Inr ingObjs \<Rightarrow>
              concat (map (\<lambda>ingObj.
                let key = kind_name Ingress @ ''/'' @ ObjKey ingObj;
                    bkt = Bkt e namespace numWorkers
                in [AddRateLimited ObjectIngestionLayer bkt key,
                    Log Debug ''key: %s, msg: %s for namespace: %s''
                      [LStr key, LConst msg, LStr namespace]]) ingObjs)))"

definition AddRoutesFromNSToIngestionQueue ::
  "lib_env \<Rightarrow> 's utils_env \<Rightarrow> 32 word \<Rightarrow> string \<Rightarrow> lib_const \<Rightarrow> effect list" where
  "AddRoutesFromNSToIngestionQueue e u numWorkers namespace msg =
     (case RouteInformer u of
        None \<Rightarrow> [Panic]
      | Some lister \<Rightarrow>
         (case lister namespace of
            Inl err \<Rightarrow>
              [Log Error ''NS to route queue add: Error occurred while retrieving routes for namespace: %s''
                 [LStr namespace]]
          | Inr routeObjs \<Rightarrow>
              concat (map (\<lambda>routeObj.
                let key = kind_name OshiftRoute @ ''/'' @ ObjKey routeObj;
                    bkt = Bkt e namespace numWorkers
                in [AddRateLimited ObjectIngestionLayer bkt key,
                    Log Debug ''key: %s, msg: %s for namespace: %s''
                      [LStr key, LConst msg, LStr namespace]]) routeObjs)))"

definition AddServicesFromNSToIngestionQueue ::
  "lib_env \<Rightarrow> 's utils_env \<Rightarrow> 32 word \<Rightarrow> string \<Rightarrow> lib_const \<Rightarrow> effect list" where
  "AddServicesFromNSToIngestionQueue e u numWorkers namespace msg =
     (if GetAdvancedL4 e then []
      else case ServiceInformer u of
        None \<Rightarrow> [Panic]
      | Some lister \<Rightarrow>
         (case lister namespace of
            Inl err \<Rightarrow>
              [Log Error ''Unable to retrieve the services during namespace sync: %s'' [LStr err]]
          | Inr svcObjs \<Rightarrow>
              concat (map (\<lambda>svcObj.
                let isSvcLb = isServiceLBType svcObj;
                    key = (if isSvcLb \<and> \<not> GetLayer7Only e
                           then kind_name L4LBService @ ''/'' @ ObjKey svcObj
                           else kind_name ServiceKind @ ''/'' @ ObjKey svcObj);
                    conflict = (if isSvcLb \<and> \<not> GetLayer7Only e \<and> UseServicesAPI e
                                then [checkSvcForSvcApiGatewayPortConflict key] else []);
                    bkt = Bkt e namespace numWorkers
                in conflict @
                   [AddRateLimited ObjectIngestionLayer bkt key,
                    Log Debug ''key: %s, msg: %s for namespace: %s''
                      [LStr key, LConst msg, LStr namespace]]) svcObjs)))"

definition AddGatewaysFromNSToIngestionQueue ::
  "lib_env \<Rightarrow> 's utils_env \<Rightarrow> 32 word \<Rightarrow> string \<Rightarrow> lib_const \<Rightarrow> effect list" where
  "AddGatewaysFromNSToIngestionQueue e u numWorkers namespace msg =
     (case GatewayLister u namespace of
        Inl err \<Rightarrow>
          [Log Error ''Unable to retrieve the gateways during namespace sync: %s'' [LStr err]]
      | Inr gatewayObjs \<Rightarrow>
          concat (map (\<lambda>gatewayObj.
            let key = kind_name Gateway @ ''/'' @ ObjKey gatewayObj;
                bkt = Bkt e namespace numWorkers
            in [InformerStatusUpdatesForSvcApiGateway key,
                AddRateLimited ObjectIngestionLayer bkt key,
                Log Debug ''key: %s, msg: %s for namespace: %s''
                  [LStr key, LConst msg, LStr namespace]]) gatewayObjs))"

subsection \<open>Namespace events\<close>

definition namespaceAddFunc ::
  "'s utils_env \<Rightarrow> AviController \<Rightarrow> ObjectMeta \<Rightarrow> effect list" where
  "namespaceAddFunc u c ns =
     (if DisableSync c then []
      else let nsLabels = Labels ns; namespace = Name ns in
        if CheckIfNamespaceAccepted_labels u namespace nsLabels False
        then [AddNamespaceToFilter (Name ns),
              Log Debug ''NS Add event: Namespace passed filter: %s'' [LStr (Name ns)]]
        else Log Debug ''NS Add event: Namespace did not pass filter: %s'' [LStr (Name ns)] #
             (if CheckIfNamespaceAccepted u namespace
              then [Log Debug ''Ns Add event: Deleting previous valid namespace: %s from valid NS List''
                      [LStr (Name ns)],
                    DeleteNamespaceFromFilter (Name ns)]
              else []))"

definition namespaceReplay ::
  "lib_env \<Rightarrow> 's utils_env \<Rightarrow> 32 word \<Rightarrow> string \<Rightarrow> lib_const \<Rightarrow> string \<Rightarrow> effect list" where
  \<comment> \<open>the four steps shared by the two cases of the update handler; \<open>verb\<close> is
      the first word of their log lines\<close>
  "namespaceReplay e u numWorkers nsName msg verb =
     (if IngressInformer u \<noteq> None
      then Log Debug (verb @ '' ingresses for namespaces: %s'') [LStr nsName] #
           AddIngressFromNSToIngestionQueue e u numWorkers nsName msg
      else if RouteInformer u \<noteq> None
      then Log Debug (verb @ '' routes for namespaces: %s'') [LStr nsName] #
           AddRoutesFromNSToIngestionQueue e u numWorkers nsName msg
      else []) @
     (if ServiceInformer u \<noteq> None
      then Log Debug (verb @ '' L4 services for namespaces: %s'') [LStr nsName] #
           AddServicesFromNSToIngestionQueue e u numWorkers nsName msg
      else []) @
     (if UseServicesAPI e
      then Log Debug (verb @ '' Gatways for namespaces: %s'') [LStr nsName] #
           AddGatewaysFromNSToIngestionQueue e u numWorkers nsName msg
      else [])"

definition namespaceUpdateFunc ::
  "lib_env \<Rightarrow> 's utils_env \<Rightarrow> 32 word \<Rightarrow> AviController \<Rightarrow> ObjectMeta \<Rightarrow> ObjectMeta \<Rightarrow> effect list" where
  "namespaceUpdateFunc e u numWorkers c nsOld nsCur =
     (if DisableSync c then []
      else if isNamespaceUpdated u nsOld nsCur
      then let oldNSAccepted = CheckIfNamespaceAccepted_labels u (Name nsOld) (Labels nsOld) False;
               newNSAccepted = CheckIfNamespaceAccepted_labels u (Name nsCur) (Labels nsCur) False in
        if \<not> oldNSAccepted \<and> newNSAccepted
        then AddNamespaceToFilter (Name nsCur) #
             namespaceReplay e u numWorkers (Name nsCur) NsFilterAdd ''Adding''
        else if oldNSAccepted \<and> \<not> newNSAccepted
        then DeleteNamespaceFromFilter (Name nsCur) #
             namespaceReplay e u numWorkers (Name nsCur) NsFilterDelete ''Deleting''
        else []
      else [])"

subsection \<open>Route events\<close>

definition routeAddFunc ::
  "lib_env \<Rightarrow> ('m RouteSpec_scheme) utils_env \<Rightarrow> 32 word \<Rightarrow> AviController \<Rightarrow>
   ('m RouteSpec_scheme) SpecObject \<Rightarrow> effect list" where
  "routeAddFunc e u numWorkers c route =
     (if DisableSync c then []
      else let namespace = fst (SplitMetaNamespaceKey (ObjKey route)) in
        if \<not> CheckIfNamespaceAccepted u namespace
        then [Log Debug ''Route add event: Namespace: %s didn't qualify filter. Not adding route''
                [LStr namespace]]
        else let key = kind_name OshiftRoute @ ''/'' @ ObjKey route;
                 bkt = Bkt e namespace numWorkers;
                 valid = HasValidBackends (Spec route) (Name route) namespace key in
          snd valid @
          (if \<not> fst valid
           then [UpdateRouteStatusWithErrMsg key (Name route) namespace DuplicateBackends]
           else []) @
          [AddRateLimited ObjectIngestionLayer bkt key,
           Log Debug ''key: %s, msg: ADD'' [LStr key]])"

definition routeDeleteFunc ::
  "lib_env \<Rightarrow> 's utils_env \<Rightarrow> 32 word \<Rightarrow> AviController \<Rightarrow> ('s SpecObject) deleted \<Rightarrow> effect list" where
  "routeDeleteFunc e u numWorkers c obj =
     (if DisableSync c then []
      else case fromDeleted ''Tombstone contained object that is not an Route: %#v'' obj of
        Inl errs \<Rightarrow> errs
      | Inr route \<Rightarrow>
          let namespace = fst (SplitMetaNamespaceKey (ObjKey route)) in
          if \<not> CheckIfNamespaceAccepted u namespace
          then [Log Debug ''Route delete event: Namespace: %s didn't qualify filter. Not deleting route''
                  [LStr namespace]]
          else let key = kind_name OshiftRoute @ ''/'' @ ObjKey route;
                   bkt = Bkt e namespace numWorkers in
            [AddRateLimited ObjectIngestionLayer bkt key,
             Log Debug ''key: %s, msg: DELETE'' [LStr key]])"

definition routeUpdateFunc ::
  "lib_env \<Rightarrow> ('m RouteSpec_scheme) utils_env \<Rightarrow> 32 word \<Rightarrow> AviController \<Rightarrow>
   ('m RouteSpec_scheme) SpecObject \<Rightarrow> ('m RouteSpec_scheme) SpecObject \<Rightarrow> effect list" where
  "routeUpdateFunc e u numWorkers c oldRoute newRoute =
     (if DisableSync c then []
      else if isRouteUpdated u oldRoute newRoute
      then let namespace = fst (SplitMetaNamespaceKey (ObjKey newRoute)) in
        if \<not> CheckIfNamespaceAccepted u namespace
        then [Log Debug ''Route update event: Namespace: %s didn't qualify filter. Not updating route''
                [LStr namespace]]
        else let key = kind_name OshiftRoute @ ''/'' @ ObjKey newRoute;
                 bkt = Bkt e namespace numWorkers;
                 valid = HasValidBackends (Spec newRoute) (Name newRoute) namespace key in
          snd valid @
          (if \<not> fst valid
           then [UpdateRouteStatusWithErrMsg key (Name newRoute) namespace DuplicateBackends]
           else []) @
          [AddRateLimited ObjectIngestionLayer bkt key,
           Log Debug ''key: %s, msg: UPDATE'' [LStr key]]
      else [])"

subsection \<open>Pod events\<close>

definition podAddFunc :: "lib_env \<Rightarrow> 32 word \<Rightarrow> AviController \<Rightarrow> 'p Pod \<Rightarrow> effect list" where
  "podAddFunc e numWorkers c pod =
     (if DisableSync c then []
      else let namespace = fst (SplitMetaNamespaceKey (ObjKey pod));
               key = kind_name PodKind @ ''/'' @ ObjKey pod;
               bkt = Bkt e namespace numWorkers in
        [AddRateLimited ObjectIngestionLayer bkt key,
         Log Debug ''key: %s, msg: ADD\<newline>'' [LStr key]])"

definition podDeleteFunc ::
  "lib_env \<Rightarrow> 32 word \<Rightarrow> AviController \<Rightarrow> ('p Pod) deleted \<Rightarrow> effect list" where
  "podDeleteFunc e numWorkers c obj =
     (if DisableSync c then []
      else case fromDeleted ''Tombstone contained object that is not an Pod: %#v'' obj of
        Inl errs \<Rightarrow> errs
      | Inr pod \<Rightarrow>
          let namespace = fst (SplitMetaNamespaceKey (ObjKey pod));
              key = kind_name PodKind @ ''/'' @ ObjKey pod;
              bkt = Bkt e namespace numWorkers in
          [AddRateLimited ObjectIngestionLayer bkt key,
           Log Debug ''key: %s, msg: DELETE'' [LStr key]])"

definition podUpdateFunc ::
  "lib_env \<Rightarrow> 32 word \<Rightarrow> AviController \<Rightarrow> 'p Pod \<Rightarrow> 'p Pod \<Rightarrow> effect list" where
  "podUpdateFunc e numWorkers c oldPod newPod =
     (if DisableSync c then []
      else if newPod \<noteq> oldPod
      then let namespace = fst (SplitMetaNamespaceKey (ObjKey newPod));
               key = kind_name PodKind @ ''/'' @ ObjKey oldPod;
               bkt = Bkt e namespace numWorkers in
        [AddRateLimited ObjectIngestionLayer bkt key,
         Log Debug ''key: %s, msg: UPDATE'' [LStr key]]
      else [])"

subsection \<open>Endpoints events\<close>

definition epAddFunc :: "lib_env \<Rightarrow> 32 word \<Rightarrow> AviController \<Rightarrow> 'u Endpoints \<Rightarrow> effect list" where
  "epAddFunc e numWorkers c ep =
     (if DisableSync c then []
      else let namespace = fst (SplitMetaNamespaceKey (ObjKey ep));
               key = kind_name EndpointsKind @ ''/'' @ ObjKey ep;
               bkt = Bkt e namespace numWorkers in
        [AddRateLimited ObjectIngestionLayer bkt key,
         Log Debug ''key: %s, msg: ADD'' [LStr key]])"

definition epDeleteFunc ::
  "lib_env \<Rightarrow> 32 word \<Rightarrow> AviController \<Rightarrow> ('u Endpoints) deleted \<Rightarrow> effect list" where
  "epDeleteFunc e numWorkers c obj =
     (if DisableSync c then []
      else case fromDeleted ''Tombstone contained object that is not an Endpoints: %#v'' obj of
        Inl errs \<Rightarrow> errs
      | Inr ep \<Rightarrow>
          let namespace = fst (SplitMetaNamespaceKey (ObjKey ep));
              key = kind_name EndpointsKind @ ''/'' @ ObjKey ep;
              bkt = Bkt e namespace numWorkers in
          [AddRateLimited ObjectIngestionLayer bkt key,
           Log Debug ''key: %s, msg: DELETE'' [LStr key]])"

definition epUpdateFunc ::
  "lib_env \<Rightarrow> 32 word \<Rightarrow> AviController \<Rightarrow> 'u Endpoints \<Rightarrow> 'u Endpoints \<Rightarrow> effect list" where
  "epUpdateFunc e numWorkers c oep cep =
     (if DisableSync c then []
      else if Subsets cep \<noteq> Subsets oep
      then let namespace = fst (SplitMetaNamespaceKey (ObjKey cep));
               key = kind_name EndpointsKind @ ''/'' @ ObjKey cep;
               bkt = Bkt e namespace numWorkers in
        [AddRateLimited ObjectIngestionLayer bkt key,
         Log Debug ''key: %s, msg: UPDATE'' [LStr key]]
      else [])"

subsection \<open>Service events\<close>

definition svcAddFunc ::
  "lib_env \<Rightarrow> 's utils_env \<Rightarrow> 32 word \<Rightarrow> AviController \<Rightarrow> Service \<Rightarrow> effect list" where
  "svcAddFunc e u numWorkers c svc =
     (if DisableSync c then []
      else let namespace = fst (SplitMetaNamespaceKey (ObjKey svc));
               isSvcLb = isServiceLBType svc in
        if isSvcLb \<and> \<not> GetLayer7Only e
        then (if \<not> IsServiceNSValid u namespace
              then [Log Debug ''L4 Service add event: Namespace: %s didn't qualify filter. Not adding service.''
                      [LStr namespace]]
              else let key = kind_name L4LBService @ ''/'' @ ObjKey svc;
                       bkt = Bkt e namespace numWorkers in
                (if GetAdvancedL4 e then [checkSvcForGatewayPortConflict key] else []) @
                (if UseServicesAPI e then [checkSvcForSvcApiGatewayPortConflict key] else []) @
                [AddRateLimited ObjectIngestionLayer bkt key,
                 Log Debug ''key: %s, msg: ADD'' [LStr key]])
        else (if GetAdvancedL4 e \<or> \<not> CheckIfNamespaceAccepted u namespace then []
              else let key = kind_name ServiceKind @ ''/'' @ ObjKey svc;
                       bkt = Bkt e namespace numWorkers in
                [AddRateLimited ObjectIngestionLayer bkt key,
                 Log Debug ''key: %s, msg: ADD'' [LStr key]]))"

definition svcDeleteFunc ::
  "lib_env \<Rightarrow> 's utils_env \<Rightarrow> 32 word \<Rightarrow> AviController \<Rightarrow> Service deleted \<Rightarrow> effect list" where
  "svcDeleteFunc e u numWorkers c obj =
     (if DisableSync c then []
      else case fromDeleted ''Tombstone contained object that is not an Service: %#v'' obj of
        Inl errs \<Rightarrow> errs
      | Inr svc \<Rightarrow>
          let isSvcLb = isServiceLBType svc;
              namespace = fst (SplitMetaNamespaceKey (ObjKey svc)) in
          if isSvcLb \<and> \<not> GetLayer7Only e
          then (if \<not> IsServiceNSValid u namespace
                then [Log Debug ''L4 Service delete event: Namespace: %s didn't qualify filter. Not deleting service.''
                        [LStr namespace]]
                else let key = kind_name L4LBService @ ''/'' @ ObjKey svc;
                         bkt = Bkt e namespace numWorkers in
                  [AddRateLimited ObjectIngestionLayer bkt key,
                   Log Debug ''key: %s, msg: DELETE'' [LStr key]])
          else (if GetAdvancedL4 e \<or> \<not> CheckIfNamespaceAccepted u namespace then []
                else let key = kind_name ServiceKind @ ''/'' @ ObjKey svc;
                         bkt = Bkt e namespace numWorkers in
                  [AddRateLimited ObjectIngestionLayer bkt key,
                   Log Debug ''key: %s, msg: DELETE'' [LStr key]]))"

definition svcUpdateFunc ::
  "lib_env \<Rightarrow> 's utils_env \<Rightarrow> 32 word \<Rightarrow> AviController \<Rightarrow> Service \<Rightarrow> Service \<Rightarrow> effect list" where
  "svcUpdateFunc e u numWorkers c oldobj svc =
     (if DisableSync c then []
      else if ResourceVersion oldobj \<noteq> ResourceVersion svc \<or> Annotations svc \<noteq> Annotations oldobj
      then let namespace = fst (SplitMetaNamespaceKey (ObjKey svc));
               isSvcLb = isServiceLBType svc in
        if isSvcLb \<and> \<not> GetLayer7Only e
        then (if \<not> IsServiceNSValid u namespace
              then [Log Debug ''L4 Service update event: Namespace: %s didn't qualify filter. Not updating service.''
                      [LStr namespace]]
              else let key = kind_name L4LBService @ ''/'' @ ObjKey svc;
                       bkt = Bkt e namespace numWorkers in
                (if GetAdvancedL4 e then [checkSvcForGatewayPortConflict key] else []) @
                (if UseServicesAPI e then [checkSvcForSvcApiGatewayPortConflict key] else []) @
                [AddRateLimited ObjectIngestionLayer bkt key,
                 Log Debug ''key: %s, msg: UPDATE'' [LStr key]])
        else (if GetAdvancedL4 e \<or> \<not> CheckIfNamespaceAccepted u namespace then []
              else let key = kind_name ServiceKind @ ''/'' @ ObjKey svc;
                       bkt = Bkt e namespace numWorkers in
                [AddRateLimited ObjectIngestionLayer bkt key,
                 Log Debug ''key: %s, msg: UPDATE'' [LStr key]])
      else [])"

subsection \<open>Node, block-affinity and host-subnet events\<close>

definition ADMIN_NS :: string where
  \<comment> \<open>Modelled from the spec: \<^verbatim>\<open>utils.ADMIN_NS\<close>, the tenant of the model names in the
      specification's scenarios.\<close>
  "ADMIN_NS = ''admin''"

definition GetTenant :: "lib_env \<Rightarrow> string" where
  "GetTenant e = (let tenantName = Getenv e ''TENANT_NAME'' in
     if tenantName \<noteq> [] then tenantName else ADMIN_NS)"

definition blockAffinityAddFunc ::
  "lib_env \<Rightarrow> 32 word \<Rightarrow> AviController \<Rightarrow> Unstructured \<Rightarrow> effect list" where
  "blockAffinityAddFunc e numWorkers c crd =
     Log Debug ''calico blockaffinity ADD Event'' [] #
     (if DisableSync c then []
      else case NestedStringMap_spec crd of (specJSON, found, err) \<Rightarrow>
        if err \<noteq> None \<or> \<not> found
        then [Log Warn ''calico blockaffinity spec not found: %+v'' [LOpaque]]
        else let key = kind_name NodeObj @ ''/'' @ (case specJSON ''name'' of None \<Rightarrow> [] | Some v \<Rightarrow> v);
                 bkt = Bkt e (GetTenant e) numWorkers in
          [AddRateLimited ObjectIngestionLayer bkt key])"

definition blockAffinityDeleteFunc ::
  "lib_env \<Rightarrow> 32 word \<Rightarrow> AviController \<Rightarrow> Unstructured \<Rightarrow> effect list" where
  "blockAffinityDeleteFunc e numWorkers c crd =
     Log Debug ''calico blockaffinity DELETE Event'' [] #
     (if DisableSync c then []
      else case NestedStringMap_spec crd of (specJSON, found, err) \<Rightarrow>
        if err \<noteq> None \<or> \<not> found
        then [Log Warn ''calico blockaffinity spec not found: %+v'' [LOpaque]]
        else let key = kind_name NodeObj @ ''/'' @ (case specJSON ''name'' of None \<Rightarrow> [] | Some v \<Rightarrow> v);
                 bkt = Bkt e (GetTenant e) numWorkers in
          [AddRateLimited ObjectIngestionLayer bkt key])"

definition hostSubnetAddFunc ::
  "lib_env \<Rightarrow> 32 word \<Rightarrow> AviController \<Rightarrow> Unstructured \<Rightarrow> effect list" where
  "hostSubnetAddFunc e numWorkers c crd =
     Log Debug ''hostsubnets ADD Event'' [] #
     (if DisableSync c then []
      else case NestedString_host crd of (host, found, err) \<Rightarrow>
        if err \<noteq> None \<or> \<not> found
        then [Log Warn ''hostsubnet host not found: %+v'' [LOpaque]]
        else let key = kind_name NodeObj @ ''/'' @ host;
                 bkt = Bkt e (GetTenant e) numWorkers in
          [AddRateLimited ObjectIngestionLayer bkt key])"

definition hostSubnetDeleteFunc ::
  "lib_env \<Rightarrow> 32 word \<Rightarrow> AviController \<Rightarrow> Unstructured \<Rightarrow> effect list" where
  "hostSubnetDeleteFunc e numWorkers c crd =
     Log Debug ''hostsubnets DELETE Event'' [] #
     (if DisableSync c then []
      else case NestedString_host crd of (host, found, err) \<Rightarrow>
        if err \<noteq> None \<or> \<not> found
        then [Log Warn ''hostsubnet host not found: %+v'' [LOpaque]]
        else let key = kind_name NodeObj @ ''/'' @ host;
                 bkt = Bkt e (GetTenant e) numWorkers in
          [AddRateLimited ObjectIngestionLayer bkt key])"

definition nodeAddFunc :: "lib_env \<Rightarrow> 32 word \<Rightarrow> AviController \<Rightarrow> Node \<Rightarrow> effect list" where
  "nodeAddFunc e numWorkers c node =
     (if DisableSync c then []
      else let key = kind_name NodeObj @ ''/'' @ Name node;
               bkt = Bkt e (GetTenant e) numWorkers in
        [AddRateLimited ObjectIngestionLayer bkt key,
         Log Debug ''key: %s, msg: ADD'' [LStr key]])"

definition nodeDeleteFunc ::
  "lib_env \<Rightarrow> 32 word \<Rightarrow> AviController \<Rightarrow> Node deleted \<Rightarrow> effect list" where
  "nodeDeleteFunc e numWorkers c obj =
     (if DisableSync c then []
      else case fromDeleted ''Tombstone contained object that is not an Node: %#v'' obj of
        Inl errs \<Rightarrow> errs
      | Inr node \<Rightarrow>
          let key = kind_name NodeObj @ ''/'' @ Name node;
              bkt = Bkt e (GetTenant e) numWorkers in
          [AddRateLimited ObjectIngestionLayer bkt key,
           Log Debug ''key: %s, msg: DELETE'' [LStr key]])"

definition nodeUpdateFunc ::
  "lib_env \<Rightarrow> 32 word \<Rightarrow> AviController \<Rightarrow> Node \<Rightarrow> Node \<Rightarrow> effect list" where
  "nodeUpdateFunc e numWorkers c oldobj node =
     (if DisableSync c then []
      else let key = kind_name NodeObj @ ''/'' @ Name node in
        if isNodeUpdated oldobj node
        then let bkt = Bkt e (GetTenant e) numWorkers in
          [AddRateLimited ObjectIngestionLayer bkt key,
           Log Debug ''key: %s, msg: UPDATE'' [LStr key]]
        else [Log Debug ''key: %s, msg: node object did not change\<newline>'' [LStr key]])"

subsection \<open>Secret events\<close>

definition secretAddFunc ::
  "lib_env \<Rightarrow> 32 word \<Rightarrow> AviController \<Rightarrow> 'd Secret \<Rightarrow> effect list" where
  "secretAddFunc e numWorkers c secret =
     (if DisableSync c then []
      else let namespace = fst (SplitMetaNamespaceKey (ObjKey secret));
               key = ''Secret'' @ ''/'' @ ObjKey secret;
               bkt = Bkt e namespace numWorkers in
        [AddRateLimited ObjectIngestionLayer bkt key,
         Log Debug ''key: %s, msg: ADD'' [LStr key]])"

definition secretDeleteFunc ::
  "lib_env \<Rightarrow> 's utils_env \<Rightarrow> 32 word \<Rightarrow> AviController \<Rightarrow> ('d Secret) deleted \<Rightarrow> effect list" where
  "secretDeleteFunc e u numWorkers c obj =
     (if DisableSync c then []
      else case fromDeleted ''Tombstone contained object that is not a Secret: %#v'' obj of
        Inl errs \<Rightarrow> errs
      | Inr secret \<Rightarrow>
          if validateAviSecret u secret
          then let namespace = fst (SplitMetaNamespaceKey (ObjKey secret));
                   key = ''Secret'' @ ''/'' @ ObjKey secret;
                   bkt = Bkt e namespace numWorkers in
            [AddRateLimited ObjectIngestionLayer bkt key,
             Log Debug ''key: %s, msg: DELETE'' [LStr key]]
          else [])"

definition secretUpdateFunc ::
  "lib_env \<Rightarrow> 's utils_env \<Rightarrow> 32 word \<Rightarrow> AviController \<Rightarrow> 'd Secret \<Rightarrow> 'd Secret \<Rightarrow> effect list" where
  "secretUpdateFunc e u numWorkers c oldobj secret =
     (if DisableSync c then []
      else if ResourceVersion oldobj \<noteq> ResourceVersion secret \<and> Data secret \<noteq> Data oldobj
      then (if validateAviSecret u secret
            then let namespace = fst (SplitMetaNamespaceKey (ObjKey secret));
                     key = ''Secret'' @ ''/'' @ ObjKey secret;
                     bkt = Bkt e namespace numWorkers in
              [AddRateLimited ObjectIngestionLayer bkt key,
               Log Debug ''key: %s, msg: UPDATE'' [LStr key]]
            else [])
      else [])"

subsection \<open>Ingress and IngressClass events\<close>

definition ingressAddFunc ::
  "lib_env \<Rightarrow> 's utils_env \<Rightarrow> 32 word \<Rightarrow> AviController \<Rightarrow> 's SpecObject \<Rightarrow> effect list" where
  "ingressAddFunc e u numWorkers c ingress =
     (if DisableSync c then []
      else let namespace = fst (SplitMetaNamespaceKey (ObjKey ingress)) in
        if \<not> CheckIfNamespaceAccepted u namespace
        then [Log Debug ''Ingress add event: Namespace: %s didn't qualify filter. Not adding ingress''
                [LStr namespace]]
        else let key = kind_name Ingress @ ''/'' @ ObjKey ingress;
                 bkt = Bkt e namespace numWorkers in
          [AddRateLimited ObjectIngestionLayer bkt key,
           Log Debug ''key: %s, msg: ADD'' [LStr key]])"

definition ingressDeleteFunc ::
  "lib_env \<Rightarrow> 's utils_env \<Rightarrow> 32 word \<Rightarrow> AviController \<Rightarrow> ('s SpecObject) deleted \<Rightarrow> effect list" where
  "ingressDeleteFunc e u numWorkers c obj =
     (if DisableSync c then []
      else case fromDeleted ''Tombstone contained object that is not an Ingress: %#v'' obj of
        Inl errs \<Rightarrow> errs
      | Inr ingress \<Rightarrow>
          let namespace = fst (SplitMetaNamespaceKey (ObjKey ingress)) in
          if \<not> CheckIfNamespaceAccepted u namespace
          then [Log Debug ''Ingress Delete event: Namespace: %s didn't qualify filter. Not deleting ingress''
                  [LStr namespace]]
          else let key = kind_name Ingress @ ''/'' @ ObjKey ingress;
                   bkt = Bkt e namespace numWorkers in
            [AddRateLimited ObjectIngestionLayer bkt key,
             Log Debug ''key: %s, msg: DELETE'' [LStr key]])"

definition ingressUpdateFunc ::
  "lib_env \<Rightarrow> 's utils_env \<Rightarrow> 32 word \<Rightarrow> AviController \<Rightarrow> 's SpecObject \<Rightarrow> 's SpecObject \<Rightarrow> effect list" where
  "ingressUpdateFunc e u numWorkers c oldobj ingress =
     (if DisableSync c then []
      else if isIngressUpdated u oldobj ingress
      then let namespace = fst (SplitMetaNamespaceKey (ObjKey ingress)) in
        if \<not> CheckIfNamespaceAccepted u namespace
        then [Log Debug ''Ingress Update event: Namespace: %s didn't qualify filter. Not updating ingress''
                [LStr namespace]]
        else let key = kind_name Ingress @ ''/'' @ ObjKey ingress;
                 bkt = Bkt e namespace numWorkers in
          [AddRateLimited ObjectIngestionLayer bkt key,
           Log Debug ''key: %s, msg: UPDATE'' [LStr key]]
      else [])"

definition ingressClassAddFunc ::
  "lib_env \<Rightarrow> 32 word \<Rightarrow> AviController \<Rightarrow> ObjectMeta \<Rightarrow> effect list" where
  "ingressClassAddFunc e numWorkers c ingClass =
     (if DisableSync c then []
      else let namespace = fst (SplitMetaNamespaceKey (ObjKey ingClass));
               key = kind_name IngressClass @ ''/'' @ ObjKey ingClass;
               bkt = Bkt e namespace numWorkers in
        [AddRateLimited ObjectIngestionLayer bkt key,
         Log Debug ''key: %s, msg: ADD'' [LStr key]])"

definition ingressClassDeleteFunc ::
  "lib_env \<Rightarrow> 32 word \<Rightarrow> AviController \<Rightarrow> ObjectMeta deleted \<Rightarrow> effect list" where
  "ingressClassDeleteFunc e numWorkers c obj =
     (if DisableSync c then []
      else case fromDeleted ''Tombstone contained object that is not an IngressClass: %#v'' obj of
        Inl errs \<Rightarrow> errs
      | Inr ingClass \<Rightarrow>
          let namespace = fst (SplitMetaNamespaceKey (ObjKey ingClass));
              key = kind_name IngressClass @ ''/'' @ ObjKey ingClass;
              bkt = Bkt e namespace numWorkers in
          [AddRateLimited ObjectIngestionLayer bkt key,
           Log Debug ''key: %s, msg: DELETE'' [LStr key]])"

definition ingressClassUpdateFunc ::
  "lib_env \<Rightarrow> 32 word \<Rightarrow> AviController \<Rightarrow> ObjectMeta \<Rightarrow> ObjectMeta \<Rightarrow> effect list" where
  "ingressClassUpdateFunc e numWorkers c oldobj ingClass =
     (if DisableSync c then []
      else if ResourceVersion oldobj \<noteq> ResourceVersion ingClass
      then let namespace = fst (SplitMetaNamespaceKey (ObjKey ingClass));
               key = kind_name IngressClass @ ''/'' @ ObjKey ingClass;
               bkt = Bkt e namespace numWorkers in
        [AddRateLimited ObjectIngestionLayer bkt key,
         Log Debug ''key: %s, msg: UPDATE'' [LStr key]]
      else [])"

section \<open>Full sync and deletion of all models: ako_init.go\<close>

definition IsNodePortMode :: "lib_env \<Rightarrow> bool" where
  "IsNodePortMode e = (let nodePortType = Getenv e SERVICE_TYPE in
     if nodePortType = NODE_PORT then True else False)"

definition GetServiceType :: "lib_env \<Rightarrow> string" where
  "GetServiceType e = Getenv e SERVICE_TYPE"

definition GetCloudType :: "lib_env \<Rightarrow> string" where
  "GetCloudType e = (if CloudType e = [] then CLOUD_VCENTER e else CloudType e)"

definition GetDisableStaticRoute :: "lib_env \<Rightarrow> bool" where
  "GetDisableStaticRoute e =
     (if GetAdvancedL4 e \<or> (GetCloudType e = CLOUD_NSXT e \<and> GetCNIPlugin e = NCP_CNI e) then True
      else if ParseBool_ok (Getenv e DISABLE_STATIC_ROUTE_SYNC) then True
      else if IsNodePortMode e \<or> GetServiceType e = NodePortLocal then True
      else False)"

definition AutoAnnotateNPLSvc :: "lib_env \<Rightarrow> bool" where
  "AutoAnnotateNPLSvc e = (let autoAnnotateSvc = Getenv e (autoAnnotateService e) in
     if GetServiceType e = NodePortLocal \<and> \<not> EqualFold e autoAnnotateSvc ''false'' then True
     else False)"

definition GetVrf :: "lib_env \<Rightarrow> string" where
  "GetVrf e = (if VRFContext e = [] then GlobalVRF e else VRFContext e)"

definition GetNamespaceToSync :: "lib_env \<Rightarrow> string" where
  "GetNamespaceToSync e = (let namespace = Getenv e ''SYNC_NAMESPACE'' in
     if namespace \<noteq> [] then namespace else [])"

definition AviObjDeletionTime :: nat where
  \<comment> \<open>Modelled from the spec: the constant of lib/constants.go, in minutes; the
      specification gives the default as 30 minutes.\<close>
  "AviObjDeletionTime = 30"

text \<open>
  What the full sync and the deletion read from the other packages: the listers of
  the remaining informers, the keys of the parent virtual services in the object cache
  (namespace and name), the content of the graph lister in the order in which the
  iteration over the map visits it, the keys of the two service listers (\<open>None\<close>
  when \<^verbatim>\<open>GetAll\<close> does not return a map), the helpers of \<^verbatim>\<open>utils\<close> on slices,
  \<^verbatim>\<open>CalculateCheckSum\<close> and \<^verbatim>\<open>lib.ExtractTypeNameNamespace\<close>, the number of workers
  of the graph queue, and which way each \<^verbatim>\<open>select\<close> goes.
\<close>

record sync_env =
  NodeLister :: "string + ObjectMeta list"
  PodLister :: "string + ObjectMeta list"
  HostRuleLister :: "string + ObjectMeta list"
  HTTPRuleLister :: "string + ObjectMeta list"
  AviInfraSettingLister :: "string + ObjectMeta list"
  GatewayClassLister :: "string + ObjectMeta list"
  AdvL4GatewayLister :: "string + ObjectMeta list"
  AdvL4GatewayClassLister :: "string + ObjectMeta list"
  AviCacheGetAllParentVSKeys :: "(string \<times> string) list"
  GraphListerGetAll :: "(string \<times> AviObjectGraph option) list"
  ClusterIpListerGetAll :: "string list option"
  lbListerGetAll :: "string list option"
  HasElem :: "string list \<Rightarrow> string \<Rightarrow> bool"
  Remove :: "string list \<Rightarrow> string \<Rightarrow> string list"
  Stringify_slice :: "string list \<Rightarrow> string"
  CalculateCheckSum :: "AviObjectGraph \<Rightarrow> 32 word"
  ExtractTypeNameNamespace :: "string \<Rightarrow> string \<times> string \<times> string"
  GraphNumWorkers :: "32 word"
  StaticRouteSelect :: select_outcome
  ConfigDeleteSelect :: select_outcome

text \<open>The keys of one kind that a loop of the full sync hands to the graph layer.\<close>

definition dequeueAll :: "kind \<Rightarrow> ObjectMeta list \<Rightarrow> effect list" where
  "dequeueAll k objs = map (\<lambda>obj. DequeueIngestion (kind_name k @ ''/'' @ ObjKey obj) True) objs"

definition FullSyncK8s_vrf :: "lib_env \<Rightarrow> sync_env \<Rightarrow> effect list \<times> string" where
  \<comment> \<open>the first block of FullSyncK8s; returns the trace and vrfModelName\<close>
  "FullSyncK8s_vrf e y =
     (if GetDisableStaticRoute e \<and> \<not> IsNodePortMode e
      then ([Log Info ''Static route sync disabled, skipping node informers'' []], [])
      else let nodeObjects = (case NodeLister y of Inl err \<Rightarrow> [] | Inr objs \<Rightarrow> objs);
               vrfModelName = GetModelName (GetTenant e) (GetVrf e) in
        (SetStaticRouteSyncHandler #
         map (\<lambda>node. DequeueIngestion (kind_name NodeObj @ ''/'' @ Name node) True) nodeObjects @
         [Log Info ''Processing model for vrf context in full sync: %s'' [LStr vrfModelName],
          PublishKeyToRestLayer vrfModelName ''fullsync'',
          Select StaticRouteSyncChan 20 (StaticRouteSelect y),
          (case StaticRouteSelect y of
             Signalled \<Rightarrow> Log Info ''Processing done for VRF'' []
           | TimedOut \<Rightarrow>
               Log Warn ''Timed out while waiting for rest layer to respond, moving on with bootup'' [])],
         vrfModelName))"

definition FullSyncK8s_services :: "lib_env \<Rightarrow> 's utils_env \<Rightarrow> Service list \<Rightarrow> effect list" where
  "FullSyncK8s_services e u svcObjs =
     concat (map (\<lambda>svcObj.
       let isSvcLb = isServiceLBType svcObj;
           svcLabel = ObjKey svcObj;
           ns = split_on CHR ''/'' svcLabel in
       if isSvcLb \<and> \<not> GetLayer7Only e
       then (if \<not> IsServiceNSValid u (hd ns) then []
             else [DequeueIngestion (kind_name L4LBService @ ''/'' @ ObjKey svcObj) True])
       else (if GetAdvancedL4 e \<or> \<not> CheckIfNamespaceAccepted u (hd ns) then []
             else [DequeueIngestion (kind_name ServiceKind @ ''/'' @ ObjKey svcObj) True])) svcObjs)"

definition dequeueAccepted :: "'s utils_env \<Rightarrow> kind \<Rightarrow> string \<Rightarrow> ObjectMeta list \<Rightarrow> effect list" where
  \<comment> \<open>the loops over ingresses and routes: only objects of an accepted namespace\<close>
  "dequeueAccepted u k what objs =
     concat (map (\<lambda>obj.
       let label = ObjKey obj; ns = split_on CHR ''/'' label in
       if CheckIfNamespaceAccepted u (hd ns)
       then (let key = kind_name k @ ''/'' @ ObjKey obj in
             [Log Debug (''Dequeue for '' @ what @ '' key: %v'') [LStr key],
              DequeueIngestion key True])
       else []) objs)"

definition FullSyncK8s_gateways ::
  "'s utils_env \<Rightarrow> ObjectMeta list \<Rightarrow> effect list" where
  "FullSyncK8s_gateways u gatewayObjs =
     concat (map (\<lambda>gatewayObj.
       let gatewayLabel = ObjKey gatewayObj; ns = split_on CHR ''/'' gatewayLabel in
       if CheckIfNamespaceAccepted u (hd ns)
       then (let key = kind_name Gateway @ ''/'' @ ObjKey gatewayObj in
             [InformerStatusUpdatesForSvcApiGateway key, DequeueIngestion key True])
       else []) gatewayObjs)"

definition dequeueListed :: "kind \<Rightarrow> string \<Rightarrow> (string + ObjectMeta list) \<Rightarrow> effect list" where
  \<comment> \<open>the loops over the three CRDs: an error of the lister is logged and the loop skipped\<close>
  "dequeueListed k errmsg listed =
     (case listed of
        Inl err \<Rightarrow> [Log Error errmsg [LStr err]]
      | Inr objs \<Rightarrow> dequeueAll k objs)"

definition FullSyncK8s_l7 :: "lib_env \<Rightarrow> 's utils_env \<Rightarrow> sync_env \<Rightarrow> effect list" where
  \<comment> \<open>the CRD, Ingress and Route sections of the branch without advanced L4\<close>
  "FullSyncK8s_l7 e u y =
     dequeueListed HostRule ''Unable to retrieve the hostrules during full sync: %s''
       (HostRuleLister y) @
     dequeueListed HTTPRule ''Unable to retrieve the httprules during full sync: %s''
       (HTTPRuleLister y) @
     dequeueListed AviInfraSetting ''Unable to retrieve the avinfrasettings during full sync: %s''
       (AviInfraSettingLister y) @
     (case IngressInformer u of
        None \<Rightarrow> []
      | Some lister \<Rightarrow>
          (case lister [] of
             Inl err \<Rightarrow> [Log Error ''Unable to retrieve the ingresses during full sync: %s'' [LStr err]]
           | Inr ingObjs \<Rightarrow> dequeueAccepted u Ingress ''ingress'' ingObjs)) @
     (case RouteInformer u of
        None \<Rightarrow> []
      | Some lister \<Rightarrow>
          (case lister [] of
             Inl err \<Rightarrow> [Log Error ''Unable to retrieve the routes during full sync: %s'' [LStr err]]
           | Inr routeObjs \<Rightarrow> dequeueAccepted u OshiftRoute ''route'' routeObjs))"

definition FullSyncK8s_objects ::
  "lib_env \<Rightarrow> 's utils_env \<Rightarrow> sync_env \<Rightarrow> effect list \<times> string option" where
  \<comment> \<open>from the Service section to the Gateway sections; the second component is the
      error with which FullSyncK8s returns early, if it does\<close>
  "FullSyncK8s_objects e u y =
     (case ServiceInformer u of
        None \<Rightarrow> ([Panic], Some ''nil pointer dereference'')
      | Some lister \<Rightarrow>
     (case lister [] of
        Inl err \<Rightarrow>
          ([Log Error ''Unable to retrieve the services during full sync: %s'' [LStr err]], Some err)
      | Inr svcObjs \<Rightarrow>
     (let t1 = FullSyncK8s_services e u svcObjs in
      case (if GetServiceType e = NodePortLocal then PodLister y else Inr []) of
        Inl err \<Rightarrow>
          (t1 @ [Log Error ''Unable to retrieve the Pods during full sync: %s'' [LStr err]], Some err)
      | Inr podObjs \<Rightarrow>
     (let t2 = t1 @ dequeueAll PodKind podObjs in
      if \<not> GetAdvancedL4 e
      then (let t3 = t2 @ FullSyncK8s_l7 e u y in
            if UseServicesAPI e
            then (case GatewayLister u [] of
                    Inl err \<Rightarrow>
                      (t3 @ [Log Error ''Unable to retrieve the gateways during full sync: %s'' [LStr err]],
                       Some err)
                  | Inr gatewayObjs \<Rightarrow>
                 (let t4 = t3 @ FullSyncK8s_gateways u gatewayObjs in
                  case GatewayClassLister y of
                    Inl err \<Rightarrow>
                      (t4 @ [Log Error ''Unable to retrieve the gatewayclasses during full sync: %s'' [LStr err]],
                       Some err)
                  | Inr gwClassObjs \<Rightarrow> (t4 @ dequeueAll GatewayClass gwClassObjs, None)))
            else (t3, None))
      else (case AdvL4GatewayLister y of
              Inl err \<Rightarrow>
                (t2 @ [Log Error ''Unable to retrieve the gateways during full sync: %s'' [LStr err]],
                 Some err)
            | Inr gatewayObjs \<Rightarrow>
           (let t3 = t2 @ concat (map (\<lambda>gatewayObj.
                       let key = kind_name Gateway @ ''/'' @ ObjKey gatewayObj in
                       [InformerStatusUpdatesForGateway key, DequeueIngestion key True]) gatewayObjs) in
            case AdvL4GatewayClassLister y of
              Inl err \<Rightarrow>
                (t3 @ [Log Error ''Unable to retrieve the gatewayclasses during full sync: %s'' [LStr err]],
                 Some err)
            | Inr gwClassObjs \<Rightarrow> (t3 @ dequeueAll GatewayClass gwClassObjs, None)))))))"

definition publishCached ::
  "sync_env \<Rightarrow> string list \<Rightarrow> string \<Rightarrow> string \<Rightarrow> string list \<times> effect list" where
  \<comment> \<open>the four lines repeated for a key of the cache: drop the model from allModels,
      log, publish\<close>
  "publishCached y allModels modelName logmsg =
     (if HasElem y allModels modelName then Remove y allModels modelName else allModels,
      [Log Info logmsg [LStr modelName], PublishKeyToRestLayer modelName ''fullsync''])"

definition publishVsKey ::
  "lib_env \<Rightarrow> sync_env \<Rightarrow> string list \<Rightarrow> string \<times> string \<Rightarrow> string list \<times> effect list" where
  "publishVsKey e y allModels vsCacheKey =
     (case vsCacheKey of (vsNamespace, vsName) \<Rightarrow>
      if GetNamespaceToSync e \<noteq> []
      then (let shardVsPrefix = ShardVSPrefix e;
                r1 = (if shardVsPrefix \<noteq> [] \<and> HasPrefix vsName shardVsPrefix
                      then publishCached y allModels (vsNamespace @ ''/'' @ vsName)
                             ''Model published L7 VS during namespace based sync: %s''
                      else (allModels, []));
                r2 = (if HasPrefix vsName (GetNamePrefix e @ GetNamespaceToSync e)
                      then publishCached y (fst r1) (vsNamespace @ ''/'' @ vsName)
                             ''Model published L4 VS during namespace based sync: %s''
                      else (fst r1, []))
            in (fst r2, snd r1 @ snd r2))
      else publishCached y allModels (vsNamespace @ ''/'' @ vsName) ''Model published in full sync %s'')"

fun publishVsKeys ::
  "lib_env \<Rightarrow> sync_env \<Rightarrow> string list \<Rightarrow> (string \<times> string) list \<Rightarrow> string list \<times> effect list" where
  "publishVsKeys e y allModels [] = (allModels, [])"
| "publishVsKeys e y allModels (vsCacheKey # rest) =
     (let r = publishVsKey e y allModels vsCacheKey;
          r' = publishVsKeys e y (fst r) rest
      in (fst r', snd r @ snd r'))"

definition FullSyncK8s_publish :: "lib_env \<Rightarrow> sync_env \<Rightarrow> string \<Rightarrow> effect list" where
  "FullSyncK8s_publish e y vrfModelName =
     (let vsKeys = AviCacheGetAllParentVSKeys y;
          allModels0 = filter (\<lambda>modelName. modelName \<noteq> vrfModelName) (map fst (GraphListerGetAll y));
          r = publishVsKeys e y allModels0 vsKeys;
          allModels = fst r
      in Log Debug ''Got the VS keys: %s'' [LOpaque] # snd r @
         Log Debug ''Newly generated models that do not exist in cache %s''
           [LStr (Stringify_slice y allModels)] #
         map (\<lambda>modelName. PublishKeyToRestLayer modelName ''fullsync'') allModels)"

definition FullSyncK8s ::
  "lib_env \<Rightarrow> 's utils_env \<Rightarrow> sync_env \<Rightarrow> AviController \<Rightarrow> effect list \<times> string option" where
  "FullSyncK8s e u y c =
     (if DisableSync c then ([Log Info ''Sync disabled, skipping full sync'' []], None)
      else let v = FullSyncK8s_vrf e y;
               vrfModelName = snd v;
               r = FullSyncK8s_objects e u y in
        case snd r of
          Some err \<Rightarrow> (fst v @ fst r, Some err)
        | None \<Rightarrow> (fst v @ fst r @ FullSyncK8s_publish e y vrfModelName, None))"

subsection \<open>DeleteModels\<close>

definition NewAviObjectGraph :: AviObjectGraph where
  "NewAviObjectGraph = \<lparr>IsVrf = False, modelNodes = [], GraphChecksum = 0\<rparr>"

definition vrfOnlyGraph :: "lib_env \<Rightarrow> sync_env \<Rightarrow> AviObjectGraph" where
  \<comment> \<open>the graph that DeleteModels builds for a VRF model: a new graph with the flag
      set, the one VRF node, and its checksum\<close>
  "vrfOnlyGraph e y =
     (let newAviModel = NewAviObjectGraph\<lparr>IsVrf := True\<rparr>;
          aviVrfNode = GetVrf e;
          withNode = newAviModel\<lparr>modelNodes := modelNodes newAviModel @ [aviVrfNode]\<rparr>
      in withNode\<lparr>GraphChecksum := CalculateCheckSum y withNode\<rparr>)"

definition DeleteModels_model ::
  "lib_env \<Rightarrow> sync_env \<Rightarrow> string \<times> AviObjectGraph option \<Rightarrow> effect list" where
  \<comment> \<open>the body of the loop over the models\<close>
  "DeleteModels_model e y entry =
     (case entry of (modelName, avimodelIntf) \<Rightarrow>
      Save modelName None #
      (case avimodelIntf of
         None \<Rightarrow> []
       | Some avimodel \<Rightarrow>
           if IsVrf avimodel then [Save modelName (Some (vrfOnlyGraph e y))] else []) @
      (let bkt = Bkt e modelName (GraphNumWorkers y) in
       [Log Info ''Deleting objects for model: %s'' [LStr modelName],
        AddRateLimited GraphLayer bkt modelName]))"

definition DeleteModels_wait :: "sync_env \<Rightarrow> effect list" where
  \<comment> \<open>the timer, the channel and the select\<close>
  "DeleteModels_wait y =
     [SetConfigDeleteSyncChan,
      Select ConfigDeleteSyncChan (AviObjDeletionTime * 60) (ConfigDeleteSelect y)] @
     (case ConfigDeleteSelect y of
        Signalled \<Rightarrow>
          [AddStatefulSetStatus ObjectDeletionDoneStatus ConditionFalse,
           Log Info ''Processing done for deleteConfig, user would be notified through statefulset update'' []]
      | TimedOut \<Rightarrow>
          [AddStatefulSetStatus ObjectDeletionTimeoutStatus ConditionUnknown,
           Log Warn ''Timed out while waiting for rest layer to respond for delete config'' []])"

definition deleteNPLAnnotations :: "sync_env \<Rightarrow> string \<Rightarrow> string list option \<Rightarrow> effect list" where
  "deleteNPLAnnotations y wrongType allSvcs =
     (case allSvcs of
        None \<Rightarrow> [Log Info wrongType [LOpaque]]
      | Some keys \<Rightarrow>
          map (\<lambda>nsSvc. case ExtractTypeNameNamespace y nsSvc of (ns, _, svc) \<Rightarrow>
                 DeleteNPLAnnotation nsSvc ns svc) keys)"

definition DeleteModels_npl :: "lib_env \<Rightarrow> sync_env \<Rightarrow> effect list" where
  "DeleteModels_npl e y =
     (if \<not> AutoAnnotateNPLSvc e then []
      else deleteNPLAnnotations y
             ''Can not delete NPL annotations, wrong type of object in ClusterIpLister: %T''
             (ClusterIpListerGetAll y) @
           deleteNPLAnnotations y
             ''Can not delete NPL annotations, wrong type of object in lbLister: %T''
             (lbListerGetAll y))"

definition DeleteModels :: "lib_env \<Rightarrow> sync_env \<Rightarrow> effect list" where
  "DeleteModels e y =
     [Log Info ''Deletion of all avi objects triggered'' [],
      AddStatefulSetStatus ObjectDeletionStartStatus ConditionTrue] @
     (let allModelsMap = GraphListerGetAll y in
      if length allModelsMap = 0
      then [Log Info ''No Avi Object to delete, status would be updated in Statefulset'' [],
            AddStatefulSetStatus ObjectDeletionDoneStatus ConditionFalse]
      else concat (map (DeleteModels_model e y) allModelsMap) @
           DeleteModels_wait y @ DeleteModels_npl e y)"

section \<open>Reading a trace\<close>

text \<open>The keys that a trace admits to the ingestion queue, in order.\<close>

fun ingested :: "effect list \<Rightarrow> string list" where
  "ingested [] = []"
| "ingested (AddRateLimited ObjectIngestionLayer bkt key # es) = key # ingested es"
| "ingested (x # es) = ingested es"

text \<open>The graph that a trace leaves in the graph lister for a model, if it saves one.\<close>

fun savedGraph :: "effect list \<Rightarrow> string \<Rightarrow> AviObjectGraph option option" where
  "savedGraph [] modelName = None"
| "savedGraph (Save m g # es) modelName =
     (case savedGraph es modelName of
        Some g' \<Rightarrow> Some g'
      | None \<Rightarrow> if m = modelName then Some g else None)"
| "savedGraph (x # es) modelName = savedGraph es modelName"


text \<open>
  The keys that the replay of a namespace admits, read off the four functions above:
  the Ingresses of the namespace, or its Routes when no Ingress informer is registered;
  its Services, when the Service informer is registered and advanced L4 is off; its
  Gateways, when the services API is in use. A lister that fails contributes nothing.
\<close>

definition replayKeys :: "lib_env \<Rightarrow> 's utils_env \<Rightarrow> string \<Rightarrow> string list" where
  "replayKeys e u ns =
     (case IngressInformer u of
        Some lister \<Rightarrow>
          (case lister ns of Inl err \<Rightarrow> []
           | Inr objs \<Rightarrow> map (\<lambda>obj. kind_name Ingress @ ''/'' @ ObjKey obj) objs)
      | None \<Rightarrow>
          (case RouteInformer u of
             Some lister \<Rightarrow>
               (case lister ns of Inl err \<Rightarrow> []
                | Inr objs \<Rightarrow> map (\<lambda>obj. kind_name OshiftRoute @ ''/'' @ ObjKey obj) objs)
           | None \<Rightarrow> [])) @
     (case ServiceInformer u of
        Some lister \<Rightarrow>
          if GetAdvancedL4 e then []
          else (case lister ns of Inl err \<Rightarrow> []
                | Inr svcs \<Rightarrow>
                    map (\<lambda>svc. (if isServiceLBType svc \<and> \<not> GetLayer7Only e
                                 then kind_name L4LBService @ ''/'' else kind_name ServiceKind @ ''/'') @ ObjKey svc) svcs)
      | None \<Rightarrow> []) @
     (if UseServicesAPI e
      then (case GatewayLister u ns of Inl err \<Rightarrow> []
            | Inr gws \<Rightarrow> map (\<lambda>obj. kind_name Gateway @ ''/'' @ ObjKey obj) gws)
      else [])"

text \<open>
  What the full sync does after the block for the VRF context: the object sections, and
  the publication of the models unless an object section returned an error.
\<close>

definition syncRest :: "lib_env \<Rightarrow> 's utils_env \<Rightarrow> sync_env \<Rightarrow> effect list" where
  "syncRest e u y =
     (case snd (FullSyncK8s_objects e u y) of
        Some err \<Rightarrow> fst (FullSyncK8s_objects e u y)
      | None \<Rightarrow> fst (FullSyncK8s_objects e u y) @
          FullSyncK8s_publish e y (GetModelName (GetTenant e) (GetVrf e)))"

section \<open>Names as they are emitted\<close>

text \<open>
  The name that \<^verbatim>\<open>Encode\<close> derives from a raw name: with Enhanced Virtual Hosting (and
  without advanced L4) the prefix followed by the hexadecimal SHA-1 of the raw name,
  otherwise the raw name itself. No case looks at the length of the name.
\<close>

definition encodedName :: "lib_env \<Rightarrow> string \<Rightarrow> string" where
  "encodedName e s =
     (if IsEvhEnabled e \<and> \<not> GetAdvancedL4 e
      then NamePrefix e @ hex_EncodeToString (sha1_Sum e (bytes s))
      else s)"

text \<open>
  A name emitted as it is, together with the warning that is logged for it when it is
  longer than 255 characters.
\<close>

definition emitted :: "string \<Rightarrow> objType \<Rightarrow> string \<times> effect list" where
  "emitted name objType =
     (name,
      if 255 < length name
      then [Log Warn ''%s name %s exceeds maximum length limit of %d characters for AVI Object''
              [LType objType, LStr name, LNum 255]]
      else [])"

text \<open>The optional infra-setting token of a name, with its dash.\<close>

definition infraToken :: "string \<Rightarrow> string" where
  "infraToken infrasetting = (if infrasetting \<noteq> [] then infrasetting @ ''-'' else [])"

text \<open>The optional service name that closes a pool name, with its dash.\<close>

definition svcSuffix :: "string list \<Rightarrow> string" where
  "svcSuffix args = (if args \<noteq> [] then ''-'' @ hd args else [])"

section \<open>Sample inputs\<close>

text \<open>
  A process environment for the examples: no package variable set, a stand-in for
  the hash functions, and the environment variables given by \<open>getenv\<close>.
\<close>

definition sample_env :: "(string \<Rightarrow> string) \<Rightarrow> lib_env" where
  "sample_env getenv =
     \<lparr>Getenv = getenv, NamePrefix = [], layer7Only = False, VRFContext = [], CloudType = [],
      ShardVSPrefix = [], GetCNIPlugin = [],
      sha1_Sum = (\<lambda>bs. take 2 (bs @ [0xab, 0x0f])),
      Bkt = (\<lambda>s n. 0), EqualFold = (\<lambda>a b. a = b),
      autoAnnotateService = ''AUTO_ANNOTATE_SERVICE'', CLOUD_NSXT = ''CLOUD_NSXT'', CLOUD_VCENTER = ''CLOUD_VCENTER'',
      NCP_CNI = ''ncp'', GlobalVRF = ''global''\<rparr>"

definition evh_getenv :: "string \<Rightarrow> string" where
  "evh_getenv v =
     (if v = ''ENABLE_EVH'' then ''true'' else if v = ''CLUSTER_NAME'' then ''c1'' else [])"

text \<open>
  A stand-in for package \<^verbatim>\<open>utils\<close>: the hash is the length of the string, a map is
  serialised through its entry for the key \<^verbatim>\<open>k\<close>, the namespace filter accepts
  what \<open>accepted\<close> accepts, the AKO namespace is \<^verbatim>\<open>avi-system\<close> and no informer
  is registered.
\<close>

definition sample_utils :: "('s \<Rightarrow> string) \<Rightarrow> (string \<Rightarrow> bool) \<Rightarrow> 's utils_env" where
  "sample_utils stringify accepted =
     \<lparr>Hash = (\<lambda>s. of_nat (length s)),
      Stringify_spec = stringify,
      Stringify_map = (\<lambda>m. case m of None \<Rightarrow> ''null''
                          | Some f \<Rightarrow> (case f ''k'' of None \<Rightarrow> ''{}'' | Some v \<Rightarrow> ''{k:'' @ v @ ''}'')),
      CheckIfNamespaceAccepted = accepted,
      CheckIfNamespaceAccepted_labels = (\<lambda>ns labels nonFilter. labels \<noteq> None),
      IsServiceNSValid = accepted,
      GetAKONamespace = ''avi-system'',
      IngressInformer = None, RouteInformer = None, ServiceInformer = None,
      GatewayLister = (\<lambda>ns. Inr [])\<rparr>"

definition sample_secret :: "string \<Rightarrow> string \<Rightarrow> string \<Rightarrow> string \<Rightarrow> string Secret" where
  "sample_secret ns name rv d =
     \<lparr>Name = name, Namespace = ns, ResourceVersion = rv, Labels = None, Annotations = None,
      Data = d\<rparr>"

definition any_ns :: "string \<Rightarrow> bool" where
  "any_ns ns = True"

definition no_ns :: "string \<Rightarrow> bool" where
  "no_ns ns = False"

definition id_string :: "string \<Rightarrow> string" where
  "id_string s = s"

definition sample_ingress ::
  "string \<Rightarrow> string \<Rightarrow> string \<Rightarrow> string \<Rightarrow> strmap \<Rightarrow> string SpecObject" where
  "sample_ingress ns name rv spec ann =
     \<lparr>Name = name, Namespace = ns, ResourceVersion = rv, Labels = None, Annotations = ann,
      Spec = spec\<rparr>"

definition backend :: "string \<Rightarrow> RouteTargetReference" where
  "backend name = \<lparr>Kind = ''Service'', BackendName = name, Weight = None\<rparr>"

definition sample_route ::
  "string \<Rightarrow> string \<Rightarrow> string \<Rightarrow> string \<Rightarrow> string list \<Rightarrow> strmap \<Rightarrow> RouteSpec SpecObject" where
  "sample_route ns name rv to alts ann =
     \<lparr>Name = name, Namespace = ns, ResourceVersion = rv, Labels = None, Annotations = ann,
      Spec = \<lparr>Host = ''foo.x'', Path = ''/'', To = backend to,
              AlternateBackends = map backend alts\<rparr>\<rparr>"

definition stringify_route :: "RouteSpec \<Rightarrow> string" where
  "stringify_route spec =
     Host spec @ Path spec @ concat (map BackendName (To spec # AlternateBackends spec))"

definition meta :: "string \<Rightarrow> string \<Rightarrow> string \<Rightarrow> strmap \<Rightarrow> ObjectMeta" where
  "meta ns name rv labels =
     \<lparr>Name = name, Namespace = ns, ResourceVersion = rv, Labels = labels, Annotations = None\<rparr>"

definition sample_service :: "string \<Rightarrow> string \<Rightarrow> string \<Rightarrow> Service" where
  "sample_service ns name type =
     \<lparr>Name = name, Namespace = ns, ResourceVersion = ''1'', Labels = None, Annotations = None,
      SpecType = type\<rparr>"

text \<open>
  A cluster with one Ingress, one Service and one Gateway in the namespace \<^verbatim>\<open>ns1\<close>,
  all informers but the one for Routes registered.
\<close>

definition one_ns_lister :: "'a list \<Rightarrow> string \<Rightarrow> string + 'a list" where
  "one_ns_lister objs ns = (if ns = ''ns1'' \<or> ns = [] then Inr objs else Inr [])"

definition cluster_utils :: "string utils_env" where
  "cluster_utils =
     (sample_utils id_string any_ns)
       \<lparr>IngressInformer := Some (one_ns_lister [meta ''ns1'' ''ing'' ''1'' None]),
        ServiceInformer := Some (one_ns_lister [sample_service ''ns1'' ''svc'' ''ClusterIP'']),
        GatewayLister := one_ns_lister [meta ''ns1'' ''gw'' ''1'' None]\<rparr>"

definition services_api_getenv :: "string \<Rightarrow> string" where
  "services_api_getenv v = (if v = ''SERVICES_API'' then ''true'' else [])"

definition no_getenv :: "string \<Rightarrow> string" where
  "no_getenv v = []"

text \<open>
  Inputs of a full sync and of a deletion: two Nodes, no CRDs, no cached virtual
  service, and a graph lister holding the VRF model and one L7 model.
\<close>

definition sample_graph :: "bool \<Rightarrow> AviObjectGraph" where
  "sample_graph vrf = \<lparr>IsVrf = vrf, modelNodes = [''node''], GraphChecksum = 7\<rparr>"

definition sample_sync :: "select_outcome \<Rightarrow> sync_env" where
  "sample_sync outcome =
     \<lparr>NodeLister = Inr [meta [] ''n1'' ''1'' None, meta [] ''n2'' ''1'' None],
      PodLister = Inr [], HostRuleLister = Inr [], HTTPRuleLister = Inr [],
      AviInfraSettingLister = Inr [], GatewayClassLister = Inr [],
      AdvL4GatewayLister = Inr [], AdvL4GatewayClassLister = Inr [],
      AviCacheGetAllParentVSKeys = [],
      GraphListerGetAll =
        [(''admin/global'', Some (sample_graph True)),
         (''admin/c1--Shared-L7-0'', Some (sample_graph False))],
      ClusterIpListerGetAll = Some [], lbListerGetAll = Some [],
      HasElem = (\<lambda>xs x. x \<in> set xs), Remove = (\<lambda>xs x. remove1 x xs),
      Stringify_slice = concat,
      CalculateCheckSum = (\<lambda>g. of_nat (length (modelNodes g))),
      ExtractTypeNameNamespace = (\<lambda>s. ([], [], s)),
      GraphNumWorkers = 8,
      StaticRouteSelect = outcome, ConfigDeleteSelect = outcome\<rparr>"

section \<open>Naming: what the code guarantees\<close>

subsection \<open>Hexadecimal encoding\<close>

lemma env_SetNamePrefix [simp]:
  "IsEvhEnabled (SetNamePrefix e) = IsEvhEnabled e"
  "GetAdvancedL4 (SetNamePrefix e) = GetAdvancedL4 e"
  "sha1_Sum (SetNamePrefix e) = sha1_Sum e"
  "GetNamePrefix (SetNamePrefix e) = GetClusterName e @ ''--''"
  by (simp_all add: IsEvhEnabled_def GetAdvancedL4_def SetNamePrefix_def GetNamePrefix_def)

lemma hextable_nth: "i < 16 \<Longrightarrow> hextable ! i \<in> set ''0123456789abcdef''"
  using nth_mem [of i hextable] by (simp add: hextable_def)

lemma nibble_hi: "unat (drop_bit 4 (v::byte)) < 16"
proof -
  have "unat (drop_bit 4 v) = unat v div 2 ^ 4" by (simp add: drop_bit_eq_div unat_div)
  moreover have "unat v < 256" using unsigned_less [of v, where ?'a = nat] by simp
  ultimately show ?thesis by simp
qed

lemma nibble_lo: "unat ((v::byte) AND 0x0f) < 16"
proof -
  have "v AND 0x0f \<le> 0x0f" by (rule word_and_le1)
  then have "unat (v AND 0x0f) \<le> unat (0x0f :: byte)" by (simp add: word_le_nat_alt)
  then show ?thesis by simp
qed

lemma hex_lowercase: "set (hex_EncodeToString bs) \<subseteq> set ''0123456789abcdef''"
  unfolding hex_EncodeToString_def
  using hextable_nth [OF nibble_hi] hextable_nth [OF nibble_lo] by auto

lemma hex_length: "length (hex_EncodeToString bs) = 2 * length bs"
  unfolding hex_EncodeToString_def by (induction bs) auto


text \<open>
  C6. After \<^verbatim>\<open>SetNamePrefix\<close>, with Enhanced Virtual Hosting enabled and advanced L4
  disabled, \<^verbatim>\<open>Encode\<close> returns the cluster name, two dashes and the hexadecimal encoding
  of the SHA-1 hash of the raw name, and that encoding uses only the digits 0-9 and a-f;
  otherwise \<^verbatim>\<open>Encode\<close> returns the raw name unchanged. The result depends on the raw
  name and the environment only, not on the object type handed to the logger.
\<close>

theorem Encode_evh_sha1_hex:
  "fst (Encode (SetNamePrefix e) s objType) =
     (if IsEvhEnabled e \<and> \<not> GetAdvancedL4 e
      then GetClusterName e @ ''--'' @ hex_EncodeToString (sha1_Sum e (bytes s))
      else s)
   \<and> set (hex_EncodeToString (sha1_Sum e (bytes s))) \<subseteq> set ''0123456789abcdef''
   \<and> fst (Encode e' s objType) = fst (Encode e' s objType')"
proof (intro conjI)
  show "fst (Encode (SetNamePrefix e) s objType) =
     (if IsEvhEnabled e \<and> \<not> GetAdvancedL4 e
      then GetClusterName e @ ''--'' @ hex_EncodeToString (sha1_Sum e (bytes s))
      else s)"
    by (simp add: Encode_def Let_def)
  show "set (hex_EncodeToString (sha1_Sum e (bytes s))) \<subseteq> set ''0123456789abcdef''"
    by (rule hex_lowercase)
  show "fst (Encode e' s objType) = fst (Encode e' s objType')"
    by (simp add: Encode_def Let_def)
qed


theorem Encode_evh_sha1_hex_witness:
  "fst (Encode (SetNamePrefix (sample_env evh_getenv)) ''x'' Pool) =
     ''c1--78ab''
   \<and> fst (Encode (SetNamePrefix (sample_env (\<lambda>v. []))) ''x'' Pool) = ''x''"
  using Encode_evh_sha1_hex [of "sample_env evh_getenv" "''x''" Pool "sample_env evh_getenv" Pool]
    Encode_evh_sha1_hex [of "sample_env (\<lambda>v. [])" "''x''" Pool "sample_env evh_getenv" Pool]
  by (simp add: sample_env_def evh_getenv_def IsEvhEnabled_def GetAdvancedL4_def GetClusterName_def
      ENABLE_EVH_def ADVANCED_L4_def CLUSTER_NAME_def hex_EncodeToString_def hextable_def bytes_def)

subsection \<open>Overlong names\<close>

lemma CheckObjectNameLength_emitted:
  "CheckObjectNameLength n t = (255 < length n, snd (emitted n t))"
  by (simp add: CheckObjectNameLength_def AVI_OBJ_NAME_MAX_LENGTH_def emitted_def)

lemma Encode_emitted: "Encode e s t = emitted (encodedName e s) t"
  by (auto simp add: Encode_def encodedName_def GetNamePrefix_def Let_def
      CheckObjectNameLength_emitted emitted_def)

lemma L4_names_emitted:
  "GetL4VSName e svc ns = emitted (encodedName e (NamePrefix e @ ns @ ''-'' @ svc)) L4VS"
  "GetL4VSVipName e svc ns = emitted (encodedName e (NamePrefix e @ ns @ ''-'' @ svc)) L4VIP"
  "GetL4PoolName e svc ns port =
     emitted (encodedName e (NamePrefix e @ ns @ ''-'' @ svc @ ''--'' @ Itoa (sint port))) L4Pool"
  "GetAdvL4PoolName e svc ns gw port =
     emitted (encodedName e
       (NamePrefix e @ ns @ ''-'' @ svc @ ''-'' @ gw @ ''--'' @ Itoa (sint port))) L4AdvPool"
  by (simp_all add: GetL4VSName_def GetL4VSVipName_def GetL4PoolName_def GetAdvL4PoolName_def
      Let_def Encode_emitted)

lemma L7_names_emitted:
  "GetVsVipName vs = emitted vs VIP"
  "GetL7InsecureDSName vs = emitted vs DataScript"
  "GetL7SharedPGName vs = emitted vs PG"
  "GetL7HttpRedirPolicy vs = emitted vs HTTPRedirectPolicy"
  "GetHeaderRewritePolicy vs lh = emitted (vs @ ''--host-hdr-re-write--'' @ lh) HeaderRewritePolicy"
  by (simp_all add: GetVsVipName_def GetL7InsecureDSName_def GetL7SharedPGName_def
      GetL7HttpRedirPolicy_def GetHeaderRewritePolicy_def Let_def CheckObjectNameLength_emitted
      emitted_def)

lemma L7_pool_name_emitted:
  "GetL7PoolName e pl ns ing infra args =
     emitted (encodedName e
       (NamePrefix e @ infraToken infra @ ReplaceAll_slash pl @ ''-'' @ ns @ ''-'' @ ing
          @ svcSuffix args)) Pool"
  by (cases args) (simp_all add: GetL7PoolName_def Let_def Encode_emitted infraToken_def svcSuffix_def)

lemma Sni_names_emitted:
  "GetSniNodeName e infra h = emitted (encodedName e (NamePrefix e @ infraToken infra @ h)) SNIVS"
  "GetSniPoolName e ing ns h p infra args =
     emitted (NamePrefix e @ infraToken infra @ ns @ ''-'' @ h @ ReplaceAll_slash p @ ''-'' @ ing
        @ svcSuffix args) Pool"
  "GetSniHttpPolName e ing ns h p infra =
     emitted (encodedName e
       (NamePrefix e @ infraToken infra @ ns @ ''-'' @ h @ ReplaceAll_slash p @ ''-'' @ ing)) HTTPPS"
  "GetSniPGName e ing ns h p infra =
     emitted (NamePrefix e @ infraToken infra @ ns @ ''-'' @ h @ ReplaceAll_slash p @ ''-'' @ ing) PG"
  by (cases args; simp add: GetSniNodeName_def GetSniPoolName_def GetSniHttpPolName_def
      GetSniPGName_def Let_def Encode_emitted infraToken_def svcSuffix_def
      CheckObjectNameLength_emitted emitted_def)+

lemma Evh_names_emitted:
  "GetEvhPoolName e ing ns h p infra svc =
     emitted (encodedName e
       (NamePrefix e @ infraToken infra @ ns @ ''-'' @ h @ ReplaceAll_slash p @ ''-'' @ ing
          @ ''-'' @ svc)) Pool"
  "GetEvhNodeName e h infra = emitted (encodedName e (NamePrefix e @ infraToken infra @ h)) EVHVS"
  "GetEvhPGName e ing ns h p infra =
     emitted (encodedName e
       (NamePrefix e @ infraToken infra @ ns @ ''-'' @ h @ ReplaceAll_slash p @ ''-'' @ ing)) PG"
  "GetTLSKeyCertNodeName e infra h =
     emitted (encodedName e (NamePrefix e @ infraToken infra @ h)) TLSKeyCert"
  "GetCACertNodeName e infra h =
     emitted (encodedName e (NamePrefix e @ infraToken infra @ h @ ''-cacert'')) CACert"
  "GetPoolPKIProfileName e pool = emitted (encodedName e (pool @ ''-pkiprofile'')) PKIProfile"
  by (simp_all add: GetEvhPoolName_def GetEvhPoolNameNoEncoding_def GetEvhNodeName_def
      GetEvhPGName_def GetTLSKeyCertNodeName_def GetCACertNodeName_def GetPoolPKIProfileName_def
      Let_def Encode_emitted infraToken_def)

lemma Passthrough_name_emitted:
  "GetPassthroughShardVSName e s key =
     (encodedName e (GetClusterName e @ ''--'' @ PassthroughPrefix
                       @ Itoa (uint (Bkt e s (PassthroughShardSize e)))),
      Log Info ''key: %s, msg: ShardVSName: %s''
        [LStr key, LStr (GetClusterName e @ ''--'' @ PassthroughPrefix
                           @ Itoa (uint (Bkt e s (PassthroughShardSize e))))] #
      snd (emitted (encodedName e (GetClusterName e @ ''--'' @ PassthroughPrefix
                                     @ Itoa (uint (Bkt e s (PassthroughShardSize e)))))
             PassthroughVS))"
  by (simp add: GetPassthroughShardVSName_def Let_def Encode_emitted emitted_def)

text \<open>
  C7. \<^verbatim>\<open>CheckObjectNameLength\<close> returns true exactly when the name is longer than 255
  characters, and then logs one warning naming it. Every naming function returns the
  whole name it derives, whatever its length, and logs that warning exactly when the
  name it returns is overlong: the functions that do not encode return their argument or
  the concatenation of all their parts, and the functions that go through \<^verbatim>\<open>Encode\<close>
  return that concatenation, or with EVH its SHA-1 encoding, where neither case depends on
  the length. No function shortens a name or returns anything in its place.
\<close>

theorem overlong_name_logged_and_emitted:
  "CheckObjectNameLength n t = (255 < length n, snd (emitted n t))
   \<and> fst (emitted n t) = n
   \<and> (snd (emitted n t) =
        (if 255 < length n
         then [Log Warn ''%s name %s exceeds maximum length limit of %d characters for AVI Object''
                 [LType t, LStr n, LNum 255]]
         else []))
   \<and> encodedName e raw =
        (if IsEvhEnabled e \<and> \<not> GetAdvancedL4 e
         then NamePrefix e @ hex_EncodeToString (sha1_Sum e (bytes raw)) else raw)
   \<and> Encode e raw t = emitted (encodedName e raw) t
   \<and> GetL4VSName e svc ns = emitted (encodedName e (NamePrefix e @ ns @ ''-'' @ svc)) L4VS
   \<and> GetL4VSVipName e svc ns = emitted (encodedName e (NamePrefix e @ ns @ ''-'' @ svc)) L4VIP
   \<and> GetL4PoolName e svc ns port =
        emitted (encodedName e (NamePrefix e @ ns @ ''-'' @ svc @ ''--'' @ Itoa (sint port))) L4Pool
   \<and> GetAdvL4PoolName e svc ns gw port =
        emitted (encodedName e
          (NamePrefix e @ ns @ ''-'' @ svc @ ''-'' @ gw @ ''--'' @ Itoa (sint port))) L4AdvPool
   \<and> GetVsVipName vs = emitted vs VIP
   \<and> GetL7InsecureDSName vs = emitted vs DataScript
   \<and> GetL7SharedPGName vs = emitted vs PG
   \<and> GetL7PoolName e pl ns ing infra args =
        emitted (encodedName e
          (NamePrefix e @ infraToken infra @ ReplaceAll_slash pl @ ''-'' @ ns @ ''-'' @ ing
             @ svcSuffix args)) Pool
   \<and> GetL7HttpRedirPolicy vs = emitted vs HTTPRedirectPolicy
   \<and> GetHeaderRewritePolicy vs lh =
        emitted (vs @ ''--host-hdr-re-write--'' @ lh) HeaderRewritePolicy
   \<and> GetSniNodeName e infra h = emitted (encodedName e (NamePrefix e @ infraToken infra @ h)) SNIVS
   \<and> GetSniPoolName e ing ns h p infra args =
        emitted (NamePrefix e @ infraToken infra @ ns @ ''-'' @ h @ ReplaceAll_slash p @ ''-'' @ ing
           @ svcSuffix args) Pool
   \<and> GetSniHttpPolName e ing ns h p infra =
        emitted (encodedName e
          (NamePrefix e @ infraToken infra @ ns @ ''-'' @ h @ ReplaceAll_slash p @ ''-'' @ ing)) HTTPPS
   \<and> GetSniPGName e ing ns h p infra =
        emitted (NamePrefix e @ infraToken infra @ ns @ ''-'' @ h @ ReplaceAll_slash p @ ''-'' @ ing) PG
   \<and> GetEvhPoolName e ing ns h p infra svc =
        emitted (encodedName e
          (NamePrefix e @ infraToken infra @ ns @ ''-'' @ h @ ReplaceAll_slash p @ ''-'' @ ing
             @ ''-'' @ svc)) Pool
   \<and> GetEvhNodeName e h infra = emitted (encodedName e (NamePrefix e @ infraToken infra @ h)) EVHVS
   \<and> GetEvhPGName e ing ns h p infra =
        emitted (encodedName e
          (NamePrefix e @ infraToken infra @ ns @ ''-'' @ h @ ReplaceAll_slash p @ ''-'' @ ing)) PG
   \<and> GetTLSKeyCertNodeName e infra h =
        emitted (encodedName e (NamePrefix e @ infraToken infra @ h)) TLSKeyCert
   \<and> GetCACertNodeName e infra h =
        emitted (encodedName e (NamePrefix e @ infraToken infra @ h @ ''-cacert'')) CACert
   \<and> GetPoolPKIProfileName e pool = emitted (encodedName e (pool @ ''-pkiprofile'')) PKIProfile
   \<and> GetPassthroughShardVSName e s key =
        (encodedName e (GetClusterName e @ ''--'' @ PassthroughPrefix
                          @ Itoa (uint (Bkt e s (PassthroughShardSize e)))),
         Log Info ''key: %s, msg: ShardVSName: %s''
           [LStr key, LStr (GetClusterName e @ ''--'' @ PassthroughPrefix
                              @ Itoa (uint (Bkt e s (PassthroughShardSize e))))] #
         snd (emitted (encodedName e (GetClusterName e @ ''--'' @ PassthroughPrefix
                                        @ Itoa (uint (Bkt e s (PassthroughShardSize e)))))
                PassthroughVS))
   \<and> infraToken infra = (if infra \<noteq> [] then infra @ ''-'' else [])
   \<and> svcSuffix args = (if args \<noteq> [] then ''-'' @ hd args else [])"
proof -
  have a: "fst (emitted n t) = n"
    "snd (emitted n t) =
        (if 255 < length n
         then [Log Warn ''%s name %s exceeds maximum length limit of %d characters for AVI Object''
                 [LType t, LStr n, LNum 255]]
         else [])"
    by (simp_all add: emitted_def)
  have b: "encodedName e raw =
        (if IsEvhEnabled e \<and> \<not> GetAdvancedL4 e
         then NamePrefix e @ hex_EncodeToString (sha1_Sum e (bytes raw)) else raw)"
    by (simp add: encodedName_def)
  have c: "infraToken infra = (if infra \<noteq> [] then infra @ ''-'' else [])"
    "svcSuffix args = (if args \<noteq> [] then ''-'' @ hd args else [])"
    by (simp_all add: infraToken_def svcSuffix_def)
  show ?thesis
    by (intro conjI)
       (rule CheckObjectNameLength_emitted a b c Encode_emitted L4_names_emitted L7_names_emitted
          L7_pool_name_emitted Sni_names_emitted Evh_names_emitted Passthrough_name_emitted)+
qed

theorem overlong_name_logged_and_emitted_witness:
  "CheckObjectNameLength (replicate 256 CHR ''a'') Pool =
     (True, [Log Warn ''%s name %s exceeds maximum length limit of %d characters for AVI Object''
               [LType Pool, LStr (replicate 256 CHR ''a''), LNum 255]])
   \<and> CheckObjectNameLength (replicate 255 CHR ''a'') Pool = (False, [])
   \<and> GetL4VSName (sample_env no_getenv) (replicate 300 CHR ''a'') ''ns'' =
       (''ns-'' @ replicate 300 CHR ''a'',
        [Log Warn ''%s name %s exceeds maximum length limit of %d characters for AVI Object''
           [LType L4VS, LStr (''ns-'' @ replicate 300 CHR ''a''), LNum 255]])
   \<and> length (fst (GetSniPoolName (sample_env no_getenv) ''ing'' ''ns'' (replicate 300 CHR ''h'')
                      ''/p'' [] [''svc''])) = 313
   \<and> Encode (sample_env evh_getenv) (replicate 300 CHR ''a'') Pool = (''6161'', [])"
proof -
  let ?e = "sample_env no_getenv" and ?v = "sample_env evh_getenv"
  note t = overlong_name_logged_and_emitted
  have ne: "IsEvhEnabled ?e = False"
    by (simp add: sample_env_def no_getenv_def IsEvhEnabled_def ENABLE_EVH_def)
  have ev: "IsEvhEnabled ?v = True" "GetAdvancedL4 ?v = False"
    by (simp_all add: sample_env_def evh_getenv_def IsEvhEnabled_def GetAdvancedL4_def
        ENABLE_EVH_def ADVANCED_L4_def)
  have p: "NamePrefix ?e = []" "NamePrefix ?v = []" by (simp_all add: sample_env_def)
  have r: "replicate 300 x = [x, x] @ replicate 298 x" for x :: byte
    by (simp add: replicate_add [symmetric] numeral_2_eq_2 [symmetric]
        flip: replicate_Suc)
  have "sha1_Sum ?v (bytes (replicate 300 CHR ''a'')) = [of_char CHR ''a'', of_char CHR ''a'']"
    by (simp add: sample_env_def bytes_def r)
  then have h: "hex_EncodeToString (sha1_Sum ?v (bytes (replicate 300 CHR ''a''))) = ''6161''"
    by (simp add: hex_EncodeToString_def hextable_def)
  show ?thesis
    by (simp add: t ne ev p h prod_eq_iff ReplaceAll_slash_def)
qed


section \<open>The ingestion layer: what the code guarantees\<close>

subsection \<open>Secrets\<close>

lemma ObjKey_ns: "Namespace obj \<noteq> [] \<Longrightarrow> ObjKey obj = Namespace obj @ ''/'' @ Name obj"
  by (simp add: ObjKey_def)

text \<open>
  C5, as the code has it. While \<^verbatim>\<open>DisableSync\<close> is off, a Secret Update event is
  admitted to the ingestion queue if and only if the \<^verbatim>\<open>Data\<close> of the two objects
  differ, their \<^verbatim>\<open>ResourceVersion\<close>s differ, and the new object is not the secret
  \<^verbatim>\<open>avi-secret\<close> of the AKO namespace; the key admitted is \<^verbatim>\<open>Secret/\<close> followed by
  the key of the object.
\<close>

theorem secret_update_admitted_iff:
  "\<not> DisableSync c \<Longrightarrow>
   ingested (secretUpdateFunc e u numWorkers c oldobj secret) =
     (if Data secret \<noteq> Data oldobj \<and> ResourceVersion oldobj \<noteq> ResourceVersion secret
         \<and> \<not> (Namespace secret = GetAKONamespace u \<and> Name secret = AviSecret)
      then [''Secret/'' @ ObjKey secret] else [])"
  by (simp add: secretUpdateFunc_def validateAviSecret_def Let_def)

theorem secret_update_admitted_iff_witness:
  "ingested (secretUpdateFunc (sample_env evh_getenv) (sample_utils id_string any_ns) 1
      \<lparr>DisableSync = False\<rparr> (sample_secret ''ns1'' ''tls'' ''1'' ''a'') (sample_secret ''ns1'' ''tls'' ''2'' ''b''))
     = [''Secret/ns1/tls'']
   \<and> ingested (secretUpdateFunc (sample_env evh_getenv) (sample_utils id_string any_ns) 1
      \<lparr>DisableSync = False\<rparr> (sample_secret ''avi-system'' ''avi-secret'' ''1'' ''a'')
      (sample_secret ''avi-system'' ''avi-secret'' ''2'' ''b'')) = []"
  using secret_update_admitted_iff [of "\<lparr>DisableSync = False\<rparr>" "sample_env evh_getenv"
      "sample_utils id_string any_ns" 1 "sample_secret ''ns1'' ''tls'' ''1'' ''a''" "sample_secret ''ns1'' ''tls'' ''2'' ''b''"]
    secret_update_admitted_iff [of "\<lparr>DisableSync = False\<rparr>" "sample_env evh_getenv"
      "sample_utils id_string any_ns" 1 "sample_secret ''avi-system'' ''avi-secret'' ''1'' ''a''"
      "sample_secret ''avi-system'' ''avi-secret'' ''2'' ''b''"]
  by (simp add: sample_secret_def sample_utils_def AviSecret_def ObjKey_def)

text \<open>
  C5, as stated, fails while \<^verbatim>\<open>DisableSync\<close> is set: the update below changes
  \<^verbatim>\<open>Data\<close> and \<^verbatim>\<open>ResourceVersion\<close> of a secret that is not the controller's own,
  and nothing is admitted.
\<close>

theorem secret_update_disabled_counterexample:
  "Data (sample_secret ''ns1'' ''tls'' ''2'' ''b'') \<noteq> Data (sample_secret ''ns1'' ''tls'' ''1'' ''a'')
   \<and> ResourceVersion (sample_secret ''ns1'' ''tls'' ''1'' ''a'') \<noteq> ResourceVersion (sample_secret ''ns1'' ''tls'' ''2'' ''b'')
   \<and> validateAviSecret (sample_utils id_string any_ns) (sample_secret ''ns1'' ''tls'' ''2'' ''b'')
   \<and> ingested (secretUpdateFunc (sample_env evh_getenv) (sample_utils id_string any_ns) 1
        \<lparr>DisableSync = True\<rparr> (sample_secret ''ns1'' ''tls'' ''1'' ''a'') (sample_secret ''ns1'' ''tls'' ''2'' ''b'')) = []"
  by (simp add: sample_secret_def secretUpdateFunc_def validateAviSecret_def sample_utils_def AviSecret_def)

text \<open>
  C10. While \<^verbatim>\<open>DisableSync\<close> is off, an Add event for the secret \<^verbatim>\<open>avi-secret\<close> of
  the AKO namespace admits the key \<^verbatim>\<open>Secret/<namespace>/avi-secret\<close> to the ingestion
  queue, whereas an Update or a Delete event for the same secret (delivered directly or
  in a tombstone) admits nothing: the filter is applied to Update and Delete only.
\<close>

theorem own_secret_filtered_on_update_delete_not_add:
  "\<not> DisableSync c \<Longrightarrow> Namespace s = GetAKONamespace u \<Longrightarrow> Name s = AviSecret \<Longrightarrow>
   Namespace s \<noteq> [] \<Longrightarrow>
   ingested (secretAddFunc e numWorkers c s) = [''Secret/'' @ Namespace s @ ''/avi-secret'']
   \<and> ingested (secretUpdateFunc e u numWorkers c oldobj s) = []
   \<and> ingested (secretDeleteFunc e u numWorkers c (Obj s)) = []
   \<and> ingested (secretDeleteFunc e u numWorkers c (Tombstone s)) = []"
  by (simp add: secretAddFunc_def secretUpdateFunc_def secretDeleteFunc_def validateAviSecret_def
      fromDeleted_def Let_def ObjKey_def AviSecret_def)

theorem own_secret_filtered_on_update_delete_not_add_witness:
  "ingested (secretAddFunc (sample_env evh_getenv) 1 \<lparr>DisableSync = False\<rparr>
      (sample_secret ''avi-system'' ''avi-secret'' ''2'' ''b'')) = [''Secret/avi-system/avi-secret'']
   \<and> ingested (secretDeleteFunc (sample_env evh_getenv) (sample_utils id_string any_ns) 1
      \<lparr>DisableSync = False\<rparr> (Obj (sample_secret ''avi-system'' ''avi-secret'' ''2'' ''b''))) = []"
  using own_secret_filtered_on_update_delete_not_add [of "\<lparr>DisableSync = False\<rparr>"
      "sample_secret ''avi-system'' ''avi-secret'' ''2'' ''b''" "sample_utils id_string any_ns"
      "sample_env evh_getenv" 1 "sample_secret ''avi-system'' ''avi-secret'' ''1'' ''a''"]
  by (simp add: sample_secret_def sample_utils_def AviSecret_def)

subsection \<open>The DisableSync gate\<close>

text \<open>
  C9. While \<^verbatim>\<open>DisableSync\<close> is set, no handler of controller.go admits a key or calls
  anything but the logger: the Add, Update and Delete handlers for Endpoints, Services,
  Secrets, Ingresses, Nodes, IngressClasses, Routes, Namespaces and Pods return at once
  with an empty trace, the four handlers for Calico block affinities and OpenShift host
  subnets write their one debug line and return, and \<^verbatim>\<open>FullSyncK8s\<close> logs that sync is
  disabled and returns nil.
\<close>

theorem disable_sync_blocks_every_handler:
  "DisableSync c \<Longrightarrow>
   epAddFunc e n c ep = [] \<and> epDeleteFunc e n c dep = [] \<and> epUpdateFunc e n c oep ep = []
   \<and> svcAddFunc e u n c svc = [] \<and> svcDeleteFunc e u n c dsvc = []
   \<and> svcUpdateFunc e u n c osvc svc = []
   \<and> secretAddFunc e n c sec = [] \<and> secretDeleteFunc e u n c dsec = []
   \<and> secretUpdateFunc e u n c osec sec = []
   \<and> ingressAddFunc e u n c ing = [] \<and> ingressDeleteFunc e u n c ding = []
   \<and> ingressUpdateFunc e u n c oing ing = []
   \<and> nodeAddFunc e n c node = [] \<and> nodeDeleteFunc e n c dnode = []
   \<and> nodeUpdateFunc e n c onode node = []
   \<and> ingressClassAddFunc e n c ic = [] \<and> ingressClassDeleteFunc e n c dic = []
   \<and> ingressClassUpdateFunc e n c oic ic = []
   \<and> routeAddFunc e ur n c route = [] \<and> routeDeleteFunc e ur n c droute = []
   \<and> routeUpdateFunc e ur n c oroute route = []
   \<and> namespaceAddFunc u c ns = [] \<and> namespaceUpdateFunc e u n c ons ns = []
   \<and> podAddFunc e n c pod = [] \<and> podDeleteFunc e n c dpod = [] \<and> podUpdateFunc e n c opod pod = []
   \<and> blockAffinityAddFunc e n c crd = [Log Debug ''calico blockaffinity ADD Event'' []]
   \<and> blockAffinityDeleteFunc e n c crd = [Log Debug ''calico blockaffinity DELETE Event'' []]
   \<and> hostSubnetAddFunc e n c crd = [Log Debug ''hostsubnets ADD Event'' []]
   \<and> hostSubnetDeleteFunc e n c crd = [Log Debug ''hostsubnets DELETE Event'' []]
   \<and> FullSyncK8s e u y c = ([Log Info ''Sync disabled, skipping full sync'' []], None)"
  by (simp add: epAddFunc_def epDeleteFunc_def epUpdateFunc_def svcAddFunc_def svcDeleteFunc_def
      svcUpdateFunc_def secretAddFunc_def secretDeleteFunc_def secretUpdateFunc_def
      ingressAddFunc_def ingressDeleteFunc_def ingressUpdateFunc_def nodeAddFunc_def
      nodeDeleteFunc_def nodeUpdateFunc_def ingressClassAddFunc_def ingressClassDeleteFunc_def
      ingressClassUpdateFunc_def routeAddFunc_def routeDeleteFunc_def routeUpdateFunc_def
      namespaceAddFunc_def namespaceUpdateFunc_def podAddFunc_def podDeleteFunc_def
      podUpdateFunc_def blockAffinityAddFunc_def blockAffinityDeleteFunc_def
      hostSubnetAddFunc_def hostSubnetDeleteFunc_def FullSyncK8s_def)

theorem disable_sync_blocks_every_handler_witness:
  "secretAddFunc (sample_env evh_getenv) 1 \<lparr>DisableSync = True\<rparr>
     (sample_secret ''ns1'' ''tls'' ''1'' ''a'') = []
   \<and> nodeAddFunc (sample_env evh_getenv) 1 \<lparr>DisableSync = True\<rparr>
     \<lparr>Name = ''n1'', Namespace = [], ResourceVersion = ''1'', Labels = None, Annotations = None,
      PodCIDR = ''10.0.0.0/24'', Addresses = []\<rparr> = []"
proof -
  have off: "DisableSync \<lparr>DisableSync = True\<rparr>" by simp
  show ?thesis
    by (simp add: disable_sync_blocks_every_handler [OF off])
qed

subsection \<open>Update filtering of Ingresses and Routes\<close>

lemma ingested_append [simp]: "ingested (xs @ ys) = ingested xs @ ingested ys"
  by (induction xs rule: ingested.induct) simp_all

lemma ingested_HasValidBackends_loop [simp]:
  "ingested (snd (HasValidBackends_loop svcList alts routeName key)) = []"
  by (induction alts arbitrary: svcList) simp_all

lemma ingested_HasValidBackends [simp]:
  "ingested (snd (HasValidBackends routeSpec routeName namespace key)) = []"
  by (simp add: HasValidBackends_def Let_def)

text \<open>
  C1, as the code has it. While \<^verbatim>\<open>DisableSync\<close> is off and the namespace of the object
  passes the namespace filter, an Ingress Update event is admitted to the ingestion queue
  if and only if the \<^verbatim>\<open>ResourceVersion\<close>s differ and the hash of the \<^verbatim>\<open>Spec\<close> or of
  the \<^verbatim>\<open>Annotations\<close> differs. Under the same two conditions a Route Update event is
  admitted when the \<^verbatim>\<open>ResourceVersion\<close>s and the hashes of the \<^verbatim>\<open>Spec\<close> differ, and
  dropped when the \<^verbatim>\<open>ResourceVersion\<close> is unchanged or neither hash differs.
\<close>

theorem ingress_route_update_admitted:
  "\<not> DisableSync c \<Longrightarrow>
   CheckIfNamespaceAccepted u (fst (SplitMetaNamespaceKey (ObjKey ingress))) \<Longrightarrow>
   CheckIfNamespaceAccepted ur (fst (SplitMetaNamespaceKey (ObjKey newRoute))) \<Longrightarrow>
   ingested (ingressUpdateFunc e u n c oldobj ingress) =
     (if ResourceVersion oldobj \<noteq> ResourceVersion ingress
         \<and> (Hash u (Stringify_spec u (Spec oldobj)) \<noteq> Hash u (Stringify_spec u (Spec ingress))
            \<or> Hash u (Stringify_map u (Annotations oldobj))
                \<noteq> Hash u (Stringify_map u (Annotations ingress)))
      then [kind_name Ingress @ ''/'' @ ObjKey ingress] else [])
   \<and> (ResourceVersion oldRoute \<noteq> ResourceVersion newRoute
        \<and> Hash ur (Stringify_spec ur (Spec oldRoute)) \<noteq> Hash ur (Stringify_spec ur (Spec newRoute))
       \<longrightarrow> ingested (routeUpdateFunc e ur n c oldRoute newRoute) = [kind_name OshiftRoute @ ''/'' @ ObjKey newRoute])
   \<and> (ResourceVersion oldRoute = ResourceVersion newRoute
        \<or> (Hash ur (Stringify_spec ur (Spec oldRoute)) = Hash ur (Stringify_spec ur (Spec newRoute))
           \<and> Hash ur (Stringify_map ur (Annotations oldRoute))
               = Hash ur (Stringify_map ur (Annotations newRoute)))
       \<longrightarrow> ingested (routeUpdateFunc e ur n c oldRoute newRoute) = [])"
  by (simp add: ingressUpdateFunc_def routeUpdateFunc_def isIngressUpdated_def isRouteUpdated_def
      Let_def)

theorem ingress_route_update_admitted_witness:
  "ingested (ingressUpdateFunc (sample_env evh_getenv) (sample_utils id_string any_ns) 1
      \<lparr>DisableSync = False\<rparr> (sample_ingress ''ns1'' ''ing'' ''1'' ''a'' None)
      (sample_ingress ''ns1'' ''ing'' ''2'' ''bb'' None)) = [''Ingress/ns1/ing'']
   \<and> ingested (ingressUpdateFunc (sample_env evh_getenv) (sample_utils id_string any_ns) 1
      \<lparr>DisableSync = False\<rparr> (sample_ingress ''ns1'' ''ing'' ''1'' ''a'' None)
      (sample_ingress ''ns1'' ''ing'' ''2'' ''a'' (Some Map.empty))) = [''Ingress/ns1/ing'']
   \<and> ingested (ingressUpdateFunc (sample_env evh_getenv) (sample_utils id_string any_ns) 1
      \<lparr>DisableSync = False\<rparr> (sample_ingress ''ns1'' ''ing'' ''1'' ''a'' None)
      (sample_ingress ''ns1'' ''ing'' ''2'' ''a'' None)) = []
   \<and> ingested (routeUpdateFunc (sample_env evh_getenv) (sample_utils stringify_route any_ns) 1
      \<lparr>DisableSync = False\<rparr> (sample_route ''ns1'' ''r'' ''1'' ''svc'' [] None)
      (sample_route ''ns1'' ''r'' ''2'' ''svc'' [''alt''] None)) = [''Route/ns1/r'']
   \<and> ingested (routeUpdateFunc (sample_env evh_getenv) (sample_utils stringify_route any_ns) 1
      \<lparr>DisableSync = False\<rparr> (sample_route ''ns1'' ''r'' ''1'' ''svc'' [] None)
      (sample_route ''ns1'' ''r'' ''1'' ''svc'' [''alt''] None)) = []"
proof -
  let ?c = "\<lparr>DisableSync = False\<rparr>"
  let ?u = "sample_utils id_string any_ns"
  let ?ur = "sample_utils stringify_route any_ns"
  have on: "\<not> DisableSync ?c" by simp
  have acc: "CheckIfNamespaceAccepted ?u ns" "CheckIfNamespaceAccepted ?ur ns" for ns
    by (simp_all add: sample_utils_def any_ns_def)
  note t = ingress_route_update_admitted [OF on acc, where e = "sample_env evh_getenv" and n = 1]
  show ?thesis
    using t [where ingress = "sample_ingress ''ns1'' ''ing'' ''2'' ''bb'' None"
          and newRoute = "sample_route ''ns1'' ''r'' ''2'' ''svc'' [''alt''] None"
          and oldobj = "sample_ingress ''ns1'' ''ing'' ''1'' ''a'' None"
          and oldRoute = "sample_route ''ns1'' ''r'' ''1'' ''svc'' [] None"]
      t [where ingress = "sample_ingress ''ns1'' ''ing'' ''2'' ''a'' (Some Map.empty)"
          and newRoute = "sample_route ''ns1'' ''r'' ''1'' ''svc'' [''alt''] None"
          and oldobj = "sample_ingress ''ns1'' ''ing'' ''1'' ''a'' None"
          and oldRoute = "sample_route ''ns1'' ''r'' ''1'' ''svc'' [] None"]
      t [where ingress = "sample_ingress ''ns1'' ''ing'' ''2'' ''a'' None"
          and newRoute = "sample_route ''ns1'' ''r'' ''1'' ''svc'' [''alt''] None"
          and oldobj = "sample_ingress ''ns1'' ''ing'' ''1'' ''a'' None"
          and oldRoute = "sample_route ''ns1'' ''r'' ''1'' ''svc'' [] None"]
    by (simp add: sample_ingress_def sample_route_def sample_utils_def id_string_def
        stringify_route_def backend_def ObjKey_def)
qed

text \<open>
  C1, as stated, fails on the two gates in front of the filter: the update below changes
  the hash of the \<^verbatim>\<open>Spec\<close> and the \<^verbatim>\<open>ResourceVersion\<close>, and it is dropped when
  \<^verbatim>\<open>DisableSync\<close> is set and when the namespace filter rejects the namespace.
\<close>

theorem ingress_update_gated_counterexample:
  "Hash (sample_utils id_string any_ns) (Stringify_spec (sample_utils id_string any_ns)
       (Spec (sample_ingress ''ns1'' ''ing'' ''1'' ''a'' None)))
     \<noteq> Hash (sample_utils id_string any_ns) (Stringify_spec (sample_utils id_string any_ns)
       (Spec (sample_ingress ''ns1'' ''ing'' ''2'' ''bb'' None)))
   \<and> ResourceVersion (sample_ingress ''ns1'' ''ing'' ''1'' ''a'' None)
       \<noteq> ResourceVersion (sample_ingress ''ns1'' ''ing'' ''2'' ''bb'' None)
   \<and> ingested (ingressUpdateFunc (sample_env evh_getenv) (sample_utils id_string any_ns) 1
        \<lparr>DisableSync = True\<rparr> (sample_ingress ''ns1'' ''ing'' ''1'' ''a'' None)
        (sample_ingress ''ns1'' ''ing'' ''2'' ''bb'' None)) = []
   \<and> ingested (ingressUpdateFunc (sample_env evh_getenv) (sample_utils id_string no_ns) 1
        \<lparr>DisableSync = False\<rparr> (sample_ingress ''ns1'' ''ing'' ''1'' ''a'' None)
        (sample_ingress ''ns1'' ''ing'' ''2'' ''bb'' None)) = []"
  by (simp add: ingressUpdateFunc_def isIngressUpdated_def sample_ingress_def sample_utils_def
      id_string_def no_ns_def Let_def)

text \<open>
  \<^verbatim>\<open>isRouteUpdated\<close> does not look at the annotations, although its comment says
  spec/annotation and \<^verbatim>\<open>isIngressUpdated\<close> does: a Route Update event that changes
  only the annotations is dropped.
\<close>

lemma route_annotation_update_dropped:
  "Hash (sample_utils stringify_route any_ns) (Stringify_map (sample_utils stringify_route any_ns)
       (Annotations (sample_route ''ns1'' ''r'' ''1'' ''svc'' [] None)))
     \<noteq> Hash (sample_utils stringify_route any_ns) (Stringify_map (sample_utils stringify_route any_ns)
       (Annotations (sample_route ''ns1'' ''r'' ''2'' ''svc'' [] (Some [''k'' \<mapsto> ''infra1'']))))
   \<and> routeUpdateFunc (sample_env evh_getenv) (sample_utils stringify_route any_ns) 1
        \<lparr>DisableSync = False\<rparr> (sample_route ''ns1'' ''r'' ''1'' ''svc'' [] None)
        (sample_route ''ns1'' ''r'' ''2'' ''svc'' [] (Some [''k'' \<mapsto> ''infra1''])) = []"
  by (simp add: routeUpdateFunc_def isRouteUpdated_def sample_route_def sample_utils_def
      stringify_route_def backend_def Let_def)

subsection \<open>Routes with duplicate backends\<close>

lemma HasValidBackends_loop_distinct:
  "fst (HasValidBackends_loop svcList alts routeName key) =
     (distinct (map BackendName alts) \<and> set (map BackendName alts) \<inter> set svcList = {})"
  by (induction alts arbitrary: svcList) auto

lemma HasValidBackends_distinct:
  "fst (HasValidBackends routeSpec routeName namespace key) =
     distinct (BackendName (To routeSpec) # map BackendName (AlternateBackends routeSpec))"
  by (auto simp add: HasValidBackends_def Let_def HasValidBackends_loop_distinct)

text \<open>
  C8, as the code has it. For a Route whose primary and alternate backends do not have
  pairwise different names, \<^verbatim>\<open>HasValidBackends\<close> returns false. While \<^verbatim>\<open>DisableSync\<close>
  is off and the namespace of the Route passes the namespace filter, the Add handler,
  and the Update handler when \<^verbatim>\<open>isRouteUpdated\<close> admits the update, publish the
  \<^verbatim>\<open>DuplicateBackends\<close> status for the Route and still admit its key to the
  ingestion queue.
\<close>

theorem duplicate_backends_reported_and_enqueued:
  assumes dup: "\<not> distinct (BackendName (To (Spec route)) #
                     map BackendName (AlternateBackends (Spec route)))"
  shows "\<not> fst (HasValidBackends (Spec route) routeName namespace key)
    \<and> (\<not> DisableSync c \<and> CheckIfNamespaceAccepted ur (fst (SplitMetaNamespaceKey (ObjKey route)))
       \<longrightarrow> UpdateRouteStatusWithErrMsg (kind_name OshiftRoute @ ''/'' @ ObjKey route) (Name route)
             (fst (SplitMetaNamespaceKey (ObjKey route))) DuplicateBackends
             \<in> set (routeAddFunc e ur n c route)
           \<and> ingested (routeAddFunc e ur n c route) = [kind_name OshiftRoute @ ''/'' @ ObjKey route]
           \<and> (isRouteUpdated ur oldRoute route
               \<longrightarrow> UpdateRouteStatusWithErrMsg (kind_name OshiftRoute @ ''/'' @ ObjKey route) (Name route)
                     (fst (SplitMetaNamespaceKey (ObjKey route))) DuplicateBackends
                     \<in> set (routeUpdateFunc e ur n c oldRoute route)
                   \<and> ingested (routeUpdateFunc e ur n c oldRoute route) = [kind_name OshiftRoute @ ''/'' @ ObjKey route]))"
  using dup
  by (simp add: routeAddFunc_def routeUpdateFunc_def Let_def HasValidBackends_distinct)

theorem duplicate_backends_reported_and_enqueued_witness:
  "routeAddFunc (sample_env evh_getenv) (sample_utils stringify_route any_ns) 1
      \<lparr>DisableSync = False\<rparr> (sample_route ''ns1'' ''r'' ''1'' ''svc'' [''alt'', ''svc''] None)
   = [Log Warn ''key: %s, msg: multiple backends with name %s found for route: %s''
        [LStr ''Route/ns1/r'', LStr ''svc'', LStr ''r''],
      UpdateRouteStatusWithErrMsg ''Route/ns1/r'' ''r'' ''ns1'' DuplicateBackends,
      AddRateLimited ObjectIngestionLayer 0 ''Route/ns1/r'',
      Log Debug ''key: %s, msg: ADD'' [LStr ''Route/ns1/r'']]
   \<and> ingested (routeUpdateFunc (sample_env evh_getenv) (sample_utils stringify_route any_ns) 1
      \<lparr>DisableSync = False\<rparr> (sample_route ''ns1'' ''r'' ''1'' ''svc'' [''alt''] None)
      (sample_route ''ns1'' ''r'' ''2'' ''svc'' [''alt'', ''svc''] None)) = [''Route/ns1/r'']"
proof -
  let ?r = "sample_route ''ns1'' ''r'' ''2'' ''svc'' [''alt'', ''svc''] None"
  let ?c = "\<lparr>DisableSync = False\<rparr>"
  let ?ur = "sample_utils stringify_route any_ns"
  have dup: "\<not> distinct (BackendName (To (Spec ?r)) # map BackendName (AlternateBackends (Spec ?r)))"
    by (simp add: sample_route_def backend_def)
  have gates: "\<not> DisableSync ?c \<and> CheckIfNamespaceAccepted ?ur (fst (SplitMetaNamespaceKey (ObjKey ?r)))"
    by (simp add: sample_utils_def any_ns_def)
  have upd: "isRouteUpdated ?ur (sample_route ''ns1'' ''r'' ''1'' ''svc'' [''alt''] None) ?r"
    by (simp add: isRouteUpdated_def sample_route_def sample_utils_def stringify_route_def backend_def)
  have "ingested (routeUpdateFunc (sample_env evh_getenv) ?ur 1 ?c
          (sample_route ''ns1'' ''r'' ''1'' ''svc'' [''alt''] None) ?r) = [kind_name OshiftRoute @ ''/'' @ ObjKey ?r]"
    using duplicate_backends_reported_and_enqueued [OF dup, of _ _ _ ?c ?ur "sample_env evh_getenv" 1
        "sample_route ''ns1'' ''r'' ''1'' ''svc'' [''alt''] None"] gates upd
    by blast
  moreover have "ObjKey ?r = ''ns1/r''" by (simp add: ObjKey_def sample_route_def)
  moreover have "routeAddFunc (sample_env evh_getenv) ?ur 1 ?c
      (sample_route ''ns1'' ''r'' ''1'' ''svc'' [''alt'', ''svc''] None)
   = [Log Warn ''key: %s, msg: multiple backends with name %s found for route: %s''
        [LStr ''Route/ns1/r'', LStr ''svc'', LStr ''r''],
      UpdateRouteStatusWithErrMsg ''Route/ns1/r'' ''r'' ''ns1'' DuplicateBackends,
      AddRateLimited ObjectIngestionLayer 0 ''Route/ns1/r'',
      Log Debug ''key: %s, msg: ADD'' [LStr ''Route/ns1/r'']]"
    by (simp add: routeAddFunc_def sample_route_def sample_utils_def any_ns_def sample_env_def
        ObjKey_def SplitMetaNamespaceKey_def HasValidBackends_def backend_def Let_def)
  ultimately show ?thesis by simp
qed

text \<open>
  C8, as stated, fails on the gates in front of the check: for the Route below, whose
  alternate backend repeats the primary one, the Add handler publishes and admits
  nothing while \<^verbatim>\<open>DisableSync\<close> is set, admits nothing when the namespace filter
  rejects the namespace, and the Update handler does nothing for an update that leaves
  the \<^verbatim>\<open>ResourceVersion\<close> unchanged.
\<close>

theorem duplicate_backends_gated_counterexample:
  "\<not> distinct (BackendName (To (Spec (sample_route ''ns1'' ''r'' ''2'' ''svc'' [''alt'', ''svc''] None))) #
       map BackendName (AlternateBackends (Spec (sample_route ''ns1'' ''r'' ''2'' ''svc'' [''alt'', ''svc''] None))))
   \<and> routeAddFunc (sample_env evh_getenv) (sample_utils stringify_route any_ns) 1
        \<lparr>DisableSync = True\<rparr> (sample_route ''ns1'' ''r'' ''2'' ''svc'' [''alt'', ''svc''] None) = []
   \<and> ingested (routeAddFunc (sample_env evh_getenv) (sample_utils stringify_route no_ns) 1
        \<lparr>DisableSync = False\<rparr> (sample_route ''ns1'' ''r'' ''2'' ''svc'' [''alt'', ''svc''] None)) = []
   \<and> routeUpdateFunc (sample_env evh_getenv) (sample_utils stringify_route any_ns) 1
        \<lparr>DisableSync = False\<rparr> (sample_route ''ns1'' ''r'' ''2'' ''svc'' [''alt'', ''svc''] None)
        (sample_route ''ns1'' ''r'' ''2'' ''svc'' [''alt'', ''svc''] None) = []"
  by (simp add: routeAddFunc_def routeUpdateFunc_def isRouteUpdated_def sample_route_def
      sample_utils_def no_ns_def backend_def ObjKey_def SplitMetaNamespaceKey_def Let_def)

subsection \<open>Replay of a namespace whose labels flip\<close>

lemma ingested_concat_map:
  "ingested (concat (map f xs)) = concat (map (\<lambda>x. ingested (f x)) xs)"
  by (induction xs) simp_all

lemma concat_map_single: "concat (map (\<lambda>x. [g x]) xs) = map g xs"
  by (induction xs) simp_all

lemma ingested_AddIngress:
  "ingested (AddIngressFromNSToIngestionQueue e u n ns msg) =
     (case IngressInformer u of
        Some lister \<Rightarrow> (case lister ns of Inl err \<Rightarrow> []
                          | Inr objs \<Rightarrow> map (\<lambda>obj. kind_name Ingress @ ''/'' @ ObjKey obj) objs)
      | None \<Rightarrow> [])"
  by (simp add: AddIngressFromNSToIngestionQueue_def ingested_concat_map Let_def concat_map_single
      split: option.splits sum.splits)

lemma ingested_AddRoutes:
  "ingested (AddRoutesFromNSToIngestionQueue e u n ns msg) =
     (case RouteInformer u of
        Some lister \<Rightarrow> (case lister ns of Inl err \<Rightarrow> []
                          | Inr objs \<Rightarrow> map (\<lambda>obj. kind_name OshiftRoute @ ''/'' @ ObjKey obj) objs)
      | None \<Rightarrow> [])"
  by (simp add: AddRoutesFromNSToIngestionQueue_def ingested_concat_map Let_def concat_map_single
      split: option.splits sum.splits)

lemma ingested_AddServices:
  "ingested (AddServicesFromNSToIngestionQueue e u n ns msg) =
     (case ServiceInformer u of
        Some lister \<Rightarrow>
          if GetAdvancedL4 e then []
          else (case lister ns of Inl err \<Rightarrow> []
                | Inr svcs \<Rightarrow>
                    map (\<lambda>svc. (if isServiceLBType svc \<and> \<not> GetLayer7Only e
                                 then kind_name L4LBService @ ''/'' else kind_name ServiceKind @ ''/'') @ ObjKey svc) svcs)
      | None \<Rightarrow> [])"
proof -
  have "concat (map (\<lambda>svcObj. ingested (
          let isSvcLb = isServiceLBType svcObj;
              key = (if isSvcLb \<and> \<not> GetLayer7Only e
                     then kind_name L4LBService @ ''/'' @ ObjKey svcObj
                     else kind_name ServiceKind @ ''/'' @ ObjKey svcObj);
              conflict = (if isSvcLb \<and> \<not> GetLayer7Only e \<and> UseServicesAPI e
                          then [checkSvcForSvcApiGatewayPortConflict key] else []);
              bkt = Bkt e ns n
          in conflict @
             [AddRateLimited ObjectIngestionLayer bkt key,
              Log Debug ''key: %s, msg: %s for namespace: %s''
                [LStr key, LConst msg, LStr ns]])) svcs)
        = map (\<lambda>svc. (if isServiceLBType svc \<and> \<not> GetLayer7Only e
                         then kind_name L4LBService @ ''/'' else kind_name ServiceKind @ ''/'') @ ObjKey svc) svcs" for svcs
    by (induction svcs) (simp_all add: Let_def)
  then show ?thesis
    by (simp add: AddServicesFromNSToIngestionQueue_def ingested_concat_map
        split: option.splits sum.splits)
qed

lemma ingested_AddGateways:
  "ingested (AddGatewaysFromNSToIngestionQueue e u n ns msg) =
     (case GatewayLister u ns of Inl err \<Rightarrow> []
      | Inr gws \<Rightarrow> map (\<lambda>obj. kind_name Gateway @ ''/'' @ ObjKey obj) gws)"
  by (simp add: AddGatewaysFromNSToIngestionQueue_def ingested_concat_map Let_def concat_map_single
      split: option.splits sum.splits)

lemma ingested_namespaceReplay:
  "ingested (namespaceReplay e u n ns msg verb) = replayKeys e u ns"
  by (simp add: namespaceReplay_def replayKeys_def ingested_AddIngress ingested_AddRoutes
      ingested_AddServices ingested_AddGateways split: option.splits)

lemma ingested_mem:
  "k \<in> set (ingested tr) \<longleftrightarrow> (\<exists>b. AddRateLimited ObjectIngestionLayer b k \<in> set tr)"
  by (induction tr rule: ingested.induct) auto

lemma replay_logged:
  "AddRateLimited ObjectIngestionLayer b k \<in> set (AddIngressFromNSToIngestionQueue e u n ns msg)
   \<Longrightarrow> Log Debug ''key: %s, msg: %s for namespace: %s'' [LStr k, LConst msg, LStr ns]
        \<in> set (AddIngressFromNSToIngestionQueue e u n ns msg)"
  "AddRateLimited ObjectIngestionLayer b k \<in> set (AddRoutesFromNSToIngestionQueue e u n ns msg)
   \<Longrightarrow> Log Debug ''key: %s, msg: %s for namespace: %s'' [LStr k, LConst msg, LStr ns]
        \<in> set (AddRoutesFromNSToIngestionQueue e u n ns msg)"
  "AddRateLimited ObjectIngestionLayer b k \<in> set (AddServicesFromNSToIngestionQueue e u n ns msg)
   \<Longrightarrow> Log Debug ''key: %s, msg: %s for namespace: %s'' [LStr k, LConst msg, LStr ns]
        \<in> set (AddServicesFromNSToIngestionQueue e u n ns msg)"
  "AddRateLimited ObjectIngestionLayer b k \<in> set (AddGatewaysFromNSToIngestionQueue e u n ns msg)
   \<Longrightarrow> Log Debug ''key: %s, msg: %s for namespace: %s'' [LStr k, LConst msg, LStr ns]
        \<in> set (AddGatewaysFromNSToIngestionQueue e u n ns msg)"
  by (auto simp add: AddIngressFromNSToIngestionQueue_def AddRoutesFromNSToIngestionQueue_def
      AddServicesFromNSToIngestionQueue_def AddGatewaysFromNSToIngestionQueue_def Let_def
      split: option.splits sum.splits if_splits)

lemma namespaceReplay_logged:
  "k \<in> set (ingested (namespaceReplay e u n ns msg verb))
   \<Longrightarrow> Log Debug ''key: %s, msg: %s for namespace: %s'' [LStr k, LConst msg, LStr ns]
        \<in> set (namespaceReplay e u n ns msg verb)"
  unfolding ingested_mem
  by (auto simp add: namespaceReplay_def dest: replay_logged split: if_splits)

text \<open>
  C4, as the code has it. For a Namespace Update event delivered while \<^verbatim>\<open>DisableSync\<close>
  is off and admitted by \<^verbatim>\<open>isNamespaceUpdated\<close>, whose labels change from rejected to
  accepted by the namespace filter, the handler admits to the ingestion queue exactly the
  keys of \<open>replayKeys\<close>: the Ingresses of the namespace (its Routes, when no Ingress
  informer is registered), its Services when the Service informer is registered and
  advanced L4 is off, and its Gateways when the services API is in use; each admission is
  logged with the message \<^verbatim>\<open>NsFilterAdd\<close>. For a change from accepted to rejected it
  admits the same keys, logged with \<^verbatim>\<open>NsFilterDelete\<close>.
\<close>

theorem namespace_label_flip_replays:
  assumes "\<not> DisableSync c" and "isNamespaceUpdated u nsOld nsCur"
  shows "(\<not> CheckIfNamespaceAccepted_labels u (Name nsOld) (Labels nsOld) False
          \<and> CheckIfNamespaceAccepted_labels u (Name nsCur) (Labels nsCur) False
         \<longrightarrow> ingested (namespaceUpdateFunc e u n c nsOld nsCur) = replayKeys e u (Name nsCur)
           \<and> (\<forall>k \<in> set (replayKeys e u (Name nsCur)).
                 Log Debug ''key: %s, msg: %s for namespace: %s''
                   [LStr k, LConst NsFilterAdd, LStr (Name nsCur)]
                 \<in> set (namespaceUpdateFunc e u n c nsOld nsCur)))
    \<and> (CheckIfNamespaceAccepted_labels u (Name nsOld) (Labels nsOld) False
          \<and> \<not> CheckIfNamespaceAccepted_labels u (Name nsCur) (Labels nsCur) False
         \<longrightarrow> ingested (namespaceUpdateFunc e u n c nsOld nsCur) = replayKeys e u (Name nsCur)
           \<and> (\<forall>k \<in> set (replayKeys e u (Name nsCur)).
                 Log Debug ''key: %s, msg: %s for namespace: %s''
                   [LStr k, LConst NsFilterDelete, LStr (Name nsCur)]
                 \<in> set (namespaceUpdateFunc e u n c nsOld nsCur)))"
  using assms
  by (auto simp add: namespaceUpdateFunc_def Let_def ingested_namespaceReplay
      dest: namespaceReplay_logged [unfolded ingested_namespaceReplay])

theorem namespace_label_flip_replays_witness:
  "ingested (namespaceUpdateFunc (sample_env services_api_getenv) cluster_utils 1
      \<lparr>DisableSync = False\<rparr> (meta [] ''ns1'' ''1'' None) (meta [] ''ns1'' ''2'' (Some Map.empty)))
     = [''Ingress/ns1/ing'', ''Service/ns1/svc'', ''Gateway/ns1/gw'']
   \<and> ingested (namespaceUpdateFunc (sample_env services_api_getenv) cluster_utils 1
      \<lparr>DisableSync = False\<rparr> (meta [] ''ns1'' ''1'' (Some Map.empty)) (meta [] ''ns1'' ''2'' None))
     = [''Ingress/ns1/ing'', ''Service/ns1/svc'', ''Gateway/ns1/gw'']
   \<and> Log Debug ''key: %s, msg: %s for namespace: %s''
        [LStr ''Gateway/ns1/gw'', LConst NsFilterDelete, LStr ''ns1'']
      \<in> set (namespaceUpdateFunc (sample_env services_api_getenv) cluster_utils 1
          \<lparr>DisableSync = False\<rparr> (meta [] ''ns1'' ''1'' (Some Map.empty)) (meta [] ''ns1'' ''2'' None))"
proof -
  let ?e = "sample_env services_api_getenv"
  let ?c = "\<lparr>DisableSync = False\<rparr>"
  let ?inv = "meta [] ''ns1'' ''1'' None" and ?val = "meta [] ''ns1'' ''2'' (Some Map.empty)"
  let ?val' = "meta [] ''ns1'' ''1'' (Some Map.empty)" and ?inv' = "meta [] ''ns1'' ''2'' None"
  have on: "\<not> DisableSync ?c" by simp
  have upd: "isNamespaceUpdated cluster_utils ?inv ?val" "isNamespaceUpdated cluster_utils ?val' ?inv'"
    by (simp_all add: isNamespaceUpdated_def cluster_utils_def sample_utils_def meta_def)
  have acc: "\<not> CheckIfNamespaceAccepted_labels cluster_utils (Name ?inv) (Labels ?inv) False"
    "CheckIfNamespaceAccepted_labels cluster_utils (Name ?val) (Labels ?val) False"
    "\<not> CheckIfNamespaceAccepted_labels cluster_utils (Name ?inv') (Labels ?inv') False"
    "CheckIfNamespaceAccepted_labels cluster_utils (Name ?val') (Labels ?val') False"
    by (simp_all add: cluster_utils_def sample_utils_def meta_def)
  have keys: "replayKeys ?e cluster_utils ''ns1'' = [''Ingress/ns1/ing'', ''Service/ns1/svc'', ''Gateway/ns1/gw'']"
    by (simp add: replayKeys_def cluster_utils_def sample_utils_def one_ns_lister_def meta_def
        sample_service_def ObjKey_def sample_env_def services_api_getenv_def GetAdvancedL4_def
        UseServicesAPI_def ParseBool_ok_def SERVICES_API_def ADVANCED_L4_def isServiceLBType_def)
  have names: "Name ?val = ''ns1''" "Name ?inv' = ''ns1''" by (simp_all add: meta_def)
  show ?thesis
    using namespace_label_flip_replays [OF on upd(1), of ?e 1] acc(1,2)
      namespace_label_flip_replays [OF on upd(2), of ?e 1] acc(3,4) keys names
    by simp
qed

text \<open>
  C4, as stated, fails for Gateways when the services API is not in use: the namespace
  below has a Gateway, its labels flip from rejected to accepted, and only the Ingress
  and the Service are admitted. Nothing at all is admitted while \<^verbatim>\<open>DisableSync\<close>
  is set.
\<close>

theorem namespace_replay_gateway_counterexample:
  "\<not> CheckIfNamespaceAccepted_labels cluster_utils ''ns1'' (Labels (meta [] ''ns1'' ''1'' None)) False
   \<and> CheckIfNamespaceAccepted_labels cluster_utils ''ns1''
       (Labels (meta [] ''ns1'' ''2'' (Some Map.empty))) False
   \<and> GatewayLister cluster_utils ''ns1'' = Inr [meta ''ns1'' ''gw'' ''1'' None]
   \<and> ingested (namespaceUpdateFunc (sample_env no_getenv) cluster_utils 1
        \<lparr>DisableSync = False\<rparr> (meta [] ''ns1'' ''1'' None) (meta [] ''ns1'' ''2'' (Some Map.empty)))
       = [''Ingress/ns1/ing'', ''Service/ns1/svc'']
   \<and> namespaceUpdateFunc (sample_env services_api_getenv) cluster_utils 1
        \<lparr>DisableSync = True\<rparr> (meta [] ''ns1'' ''1'' None) (meta [] ''ns1'' ''2'' (Some Map.empty))
       = []"
  by (simp add: namespaceUpdateFunc_def isNamespaceUpdated_def namespaceReplay_def
      AddIngressFromNSToIngestionQueue_def AddServicesFromNSToIngestionQueue_def
      cluster_utils_def sample_utils_def one_ns_lister_def meta_def
      sample_service_def ObjKey_def sample_env_def no_getenv_def GetAdvancedL4_def
      UseServicesAPI_def ParseBool_ok_def SERVICES_API_def ADVANCED_L4_def isServiceLBType_def
      GetLayer7Only_def Let_def)

section \<open>Deletion of all models and full sync: what the code guarantees\<close>

subsection \<open>DeleteModels\<close>

lemma savedGraph_append:
  "savedGraph (xs @ ys) m =
     (case savedGraph ys m of Some g \<Rightarrow> Some g | None \<Rightarrow> savedGraph xs m)"
  by (induction xs m rule: savedGraph.induct) (simp_all split: option.splits)

lemma savedGraph_DeleteModels_model:
  "savedGraph (DeleteModels_model e y (m', g)) m =
     (if m' = m
      then Some (if (\<exists>gr. g = Some gr \<and> IsVrf gr) then Some (vrfOnlyGraph e y) else None)
      else None)"
  by (cases g) (simp_all add: DeleteModels_model_def Let_def)

lemma savedGraph_other_models:
  "m \<notin> fst ` set xs \<Longrightarrow> savedGraph (concat (map (DeleteModels_model e y) xs)) m = None"
  by (induction xs) (auto simp add: savedGraph_append savedGraph_DeleteModels_model)

lemma savedGraph_models:
  assumes "(m, g) \<in> set xs" and "distinct (map fst xs)"
  shows "savedGraph (concat (map (DeleteModels_model e y) xs)) m =
           Some (if (\<exists>gr. g = Some gr \<and> IsVrf gr) then Some (vrfOnlyGraph e y) else None)"
  using assms
proof (induction xs)
  case Nil
  then show ?case by simp
next
  case (Cons x xs)
  show ?case
  proof (cases "(m, g) \<in> set xs")
    case True
    with Cons show ?thesis by (simp add: savedGraph_append)
  next
    case False
    with Cons.prems have x: "x = (m, g)" and "m \<notin> fst ` set xs" by force+
    then show ?thesis
      by (simp add: savedGraph_append savedGraph_other_models savedGraph_DeleteModels_model)
  qed
qed

lemma savedGraph_tail:
  "savedGraph (DeleteModels_wait y) m = None" "savedGraph (DeleteModels_npl e y) m = None"
proof -
  show "savedGraph (DeleteModels_wait y) m = None"
    by (simp add: DeleteModels_wait_def split: select_outcome.splits)
  have "savedGraph (deleteNPLAnnotations y w l) m = None" for w l
  proof (cases l)
    case None
    then show ?thesis by (simp add: deleteNPLAnnotations_def)
  next
    case (Some keys)
    have "savedGraph (map (\<lambda>nsSvc. case ExtractTypeNameNamespace y nsSvc of (ns, _, svc) \<Rightarrow>
                 DeleteNPLAnnotation nsSvc ns svc) ks) m = None" for ks
      by (induction ks) (simp_all split: prod.splits)
    with Some show ?thesis by (simp add: deleteNPLAnnotations_def)
  qed
  then show "savedGraph (DeleteModels_npl e y) m = None"
    by (simp add: DeleteModels_npl_def savedGraph_append)
qed

lemma DeleteModels_enqueue_then_wait:
  assumes "(m, g) \<in> set (GraphListerGetAll y)"
  shows "\<exists>pre mid. DeleteModels e y =
           pre @ [AddRateLimited GraphLayer (Bkt e m (GraphNumWorkers y)) m] @ mid @
           DeleteModels_wait y @ DeleteModels_npl e y"
proof -
  from assms obtain as bs where xs: "GraphListerGetAll y = as @ (m, g) # bs"
    by (auto dest: split_list)
  obtain front where f: "DeleteModels_model e y (m, g) =
      front @ [AddRateLimited GraphLayer (Bkt e m (GraphNumWorkers y)) m]"
    by (simp add: DeleteModels_model_def Let_def)
  have "DeleteModels e y =
      ([Log Info ''Deletion of all avi objects triggered'' [],
        AddStatefulSetStatus ObjectDeletionStartStatus ConditionTrue] @
       concat (map (DeleteModels_model e y) as) @ front) @
      [AddRateLimited GraphLayer (Bkt e m (GraphNumWorkers y)) m] @
      concat (map (DeleteModels_model e y) bs) @ DeleteModels_wait y @ DeleteModels_npl e y"
    using xs f by (simp add: DeleteModels_def)
  then show ?thesis by blast
qed

text \<open>
  C2. For every model name that the graph lister holds, \<^verbatim>\<open>DeleteModels\<close> leaves in the
  lister the nil graph, or, when the model's \<^verbatim>\<open>IsVrf\<close> flag is set, a graph with the
  flag set and the VRF node alone; it puts the model name on the queue that feeds the REST
  layer; and after that it waits on \<^verbatim>\<open>ConfigDeleteSyncChan\<close> with a timer of 30 minutes.
  When the signal arrives it sets the StatefulSet status to deletion-done, when the
  timer fires it sets it to deletion-timeout with condition unknown, and in both cases it
  goes on with the same removal of the NodePortLocal annotations.
\<close>

theorem DeleteModels_clears_enqueues_waits:
  assumes "(m, g) \<in> set (GraphListerGetAll y)" and "distinct (map fst (GraphListerGetAll y))"
  shows "savedGraph (DeleteModels e y) m =
           Some (if (\<exists>gr. g = Some gr \<and> IsVrf gr) then Some (vrfOnlyGraph e y) else None)
    \<and> IsVrf (vrfOnlyGraph e y) \<and> modelNodes (vrfOnlyGraph e y) = [GetVrf e]
    \<and> (\<exists>pre mid. DeleteModels e y =
          pre @ [AddRateLimited GraphLayer (Bkt e m (GraphNumWorkers y)) m] @ mid @
          [SetConfigDeleteSyncChan,
           Select ConfigDeleteSyncChan (30 * 60) (ConfigDeleteSelect y)] @
          (case ConfigDeleteSelect y of
             Signalled \<Rightarrow>
               [AddStatefulSetStatus ObjectDeletionDoneStatus ConditionFalse,
                Log Info ''Processing done for deleteConfig, user would be notified through statefulset update'' []]
           | TimedOut \<Rightarrow>
               [AddStatefulSetStatus ObjectDeletionTimeoutStatus ConditionUnknown,
                Log Warn ''Timed out while waiting for rest layer to respond for delete config'' []]) @
          DeleteModels_npl e y)
    \<and> DeleteModels_npl e (y\<lparr>ConfigDeleteSelect := TimedOut\<rparr>)
        = DeleteModels_npl e (y\<lparr>ConfigDeleteSelect := Signalled\<rparr>)"
proof (intro conjI)
  from assms(1) have ne: "length (GraphListerGetAll y) \<noteq> 0" by auto
  show "savedGraph (DeleteModels e y) m =
           Some (if (\<exists>gr. g = Some gr \<and> IsVrf gr) then Some (vrfOnlyGraph e y) else None)"
    using ne savedGraph_models [OF assms, of e y]
    by (simp add: DeleteModels_def savedGraph_append savedGraph_tail)
  show "IsVrf (vrfOnlyGraph e y)" "modelNodes (vrfOnlyGraph e y) = [GetVrf e]"
    by (simp_all add: vrfOnlyGraph_def NewAviObjectGraph_def Let_def)
  show "\<exists>pre mid. DeleteModels e y =
          pre @ [AddRateLimited GraphLayer (Bkt e m (GraphNumWorkers y)) m] @ mid @
          [SetConfigDeleteSyncChan,
           Select ConfigDeleteSyncChan (30 * 60) (ConfigDeleteSelect y)] @
          (case ConfigDeleteSelect y of
             Signalled \<Rightarrow>
               [AddStatefulSetStatus ObjectDeletionDoneStatus ConditionFalse,
                Log Info ''Processing done for deleteConfig, user would be notified through statefulset update'' []]
           | TimedOut \<Rightarrow>
               [AddStatefulSetStatus ObjectDeletionTimeoutStatus ConditionUnknown,
                Log Warn ''Timed out while waiting for rest layer to respond for delete config'' []]) @
          DeleteModels_npl e y"
    using DeleteModels_enqueue_then_wait [OF assms(1), of e]
    by (simp add: DeleteModels_wait_def AviObjDeletionTime_def)
  show "DeleteModels_npl e (y\<lparr>ConfigDeleteSelect := TimedOut\<rparr>)
        = DeleteModels_npl e (y\<lparr>ConfigDeleteSelect := Signalled\<rparr>)"
    by (simp add: DeleteModels_npl_def deleteNPLAnnotations_def split: option.splits)
qed

theorem DeleteModels_clears_enqueues_waits_witness:
  "savedGraph (DeleteModels (sample_env no_getenv) (sample_sync TimedOut)) ''admin/global''
     = Some (Some \<lparr>IsVrf = True, modelNodes = [''global''], GraphChecksum = 1\<rparr>)
   \<and> savedGraph (DeleteModels (sample_env no_getenv) (sample_sync TimedOut)) ''admin/c1--Shared-L7-0''
     = Some None"
proof -
  let ?y = "sample_sync TimedOut" and ?e = "sample_env no_getenv"
  have d: "distinct (map fst (GraphListerGetAll ?y))"
    by (simp add: sample_sync_def)
  have m1: "(''admin/global'', Some (sample_graph True)) \<in> set (GraphListerGetAll ?y)"
    and m2: "(''admin/c1--Shared-L7-0'', Some (sample_graph False)) \<in> set (GraphListerGetAll ?y)"
    by (simp_all add: sample_sync_def)
  have v: "vrfOnlyGraph ?e ?y = \<lparr>IsVrf = True, modelNodes = [''global''], GraphChecksum = 1\<rparr>"
    by (simp add: vrfOnlyGraph_def NewAviObjectGraph_def GetVrf_def sample_env_def sample_sync_def
        Let_def)
  note s1 = DeleteModels_clears_enqueues_waits [OF m1 d, of ?e, THEN conjunct1]
  note s2 = DeleteModels_clears_enqueues_waits [OF m2 d, of ?e, THEN conjunct1]
  show ?thesis
    using s1 s2 v by (simp add: sample_graph_def)
qed

subsection \<open>FullSyncK8s\<close>

lemma not_node_key:
  "k \<noteq> NodeObj \<Longrightarrow> \<not> HasPrefix (kind_name k @ ''/'' @ x) (kind_name NodeObj @ ''/'')"
  by (cases k) simp_all

lemma FullSyncK8s_vrf_enabled:
  assumes "\<not> GetDisableStaticRoute e \<or> IsNodePortMode e"
  shows "FullSyncK8s_vrf e y =
     (SetStaticRouteSyncHandler #
      map (\<lambda>node. DequeueIngestion (kind_name NodeObj @ ''/'' @ Name node) True)
        (case NodeLister y of Inl err \<Rightarrow> [] | Inr objs \<Rightarrow> objs) @
      [Log Info ''Processing model for vrf context in full sync: %s''
         [LStr (GetModelName (GetTenant e) (GetVrf e))],
       PublishKeyToRestLayer (GetModelName (GetTenant e) (GetVrf e)) ''fullsync'',
       Select StaticRouteSyncChan 20 (StaticRouteSelect y),
       (case StaticRouteSelect y of
          Signalled \<Rightarrow> Log Info ''Processing done for VRF'' []
        | TimedOut \<Rightarrow>
            Log Warn ''Timed out while waiting for rest layer to respond, moving on with bootup'' [])],
      GetModelName (GetTenant e) (GetVrf e))"
  using assms by (auto simp add: FullSyncK8s_vrf_def Let_def)

lemma objects_independent:
  "FullSyncK8s_objects e u (y\<lparr>StaticRouteSelect := out\<rparr>) = FullSyncK8s_objects e u y"
  by (simp add: FullSyncK8s_objects_def FullSyncK8s_l7_def
      cong: option.case_cong sum.case_cong if_cong)

lemma publishVsKeys_independent:
  "publishVsKeys e (y\<lparr>StaticRouteSelect := out\<rparr>) ms ks = publishVsKeys e y ms ks"
  by (induction ks arbitrary: ms)
     (simp_all add: publishVsKey_def publishCached_def Let_def split: prod.splits)

lemma publish_independent:
  "FullSyncK8s_publish e (y\<lparr>StaticRouteSelect := out\<rparr>) v = FullSyncK8s_publish e y v"
  by (simp add: FullSyncK8s_publish_def publishVsKeys_independent)

lemma syncRest_independent: "syncRest e u (y\<lparr>StaticRouteSelect := out\<rparr>) = syncRest e u y"
  by (simp add: syncRest_def objects_independent publish_independent cong: option.case_cong)

lemma FullSyncK8s_enabled:
  assumes "\<not> GetDisableStaticRoute e \<or> IsNodePortMode e" and "\<not> DisableSync c"
  shows "fst (FullSyncK8s e u y c) = fst (FullSyncK8s_vrf e y) @ syncRest e u y"
  using assms
  by (simp add: FullSyncK8s_def Let_def syncRest_def FullSyncK8s_vrf_enabled split: option.splits)

lemma takeWhile_before_publish:
  assumes "\<forall>x \<in> set xs. x \<noteq> p"
  shows "takeWhile (\<lambda>x. x \<noteq> p) (xs @ p # ys) = xs"
  using assms by (induction xs) simp_all

text \<open>
  C3. When static-route sync is enabled (or AKO runs in NodePort mode), nothing but Node
  keys is handed to the graph layer before \<^verbatim>\<open>FullSyncK8s\<close> publishes the model of the
  VRF context to the REST queue, and no key of another kind starts like a Node key.
  Unless \<^verbatim>\<open>DisableSync\<close> makes it skip the sync, \<^verbatim>\<open>FullSyncK8s\<close> does publish that
  model, then waits on \<^verbatim>\<open>StaticRouteSyncChan\<close> with a timer of 20 seconds and goes on
  with the same work whether the signal arrives or the timer fires.
\<close>

theorem FullSyncK8s_vrf_first:
  assumes "\<not> GetDisableStaticRoute e \<or> IsNodePortMode e"
  shows "(\<forall>k b. DequeueIngestion k b \<in> set (takeWhile
              (\<lambda>x. x \<noteq> PublishKeyToRestLayer (GetModelName (GetTenant e) (GetVrf e)) ''fullsync'')
              (fst (FullSyncK8s e u y c)))
            \<longrightarrow> HasPrefix k (kind_name NodeObj @ ''/''))
    \<and> (\<forall>k x. k \<noteq> NodeObj \<longrightarrow> \<not> HasPrefix (kind_name k @ ''/'' @ x) (kind_name NodeObj @ ''/''))
    \<and> (\<not> DisableSync c \<longrightarrow>
         (\<exists>rest. \<forall>out. fst (FullSyncK8s e u (y\<lparr>StaticRouteSelect := out\<rparr>) c) =
            SetStaticRouteSyncHandler #
            map (\<lambda>node. DequeueIngestion (kind_name NodeObj @ ''/'' @ Name node) True)
              (case NodeLister y of Inl err \<Rightarrow> [] | Inr objs \<Rightarrow> objs) @
            [Log Info ''Processing model for vrf context in full sync: %s''
               [LStr (GetModelName (GetTenant e) (GetVrf e))],
             PublishKeyToRestLayer (GetModelName (GetTenant e) (GetVrf e)) ''fullsync'',
             Select StaticRouteSyncChan 20 out,
             (case out of
                Signalled \<Rightarrow> Log Info ''Processing done for VRF'' []
              | TimedOut \<Rightarrow>
                  Log Warn ''Timed out while waiting for rest layer to respond, moving on with bootup'' [])] @
            rest))"
proof (intro conjI)
  let ?vrf = "GetModelName (GetTenant e) (GetVrf e)"
  let ?pub = "PublishKeyToRestLayer ?vrf ''fullsync''"
  let ?nodes = "case NodeLister y of Inl err \<Rightarrow> [] | Inr objs \<Rightarrow> objs"
  let ?A = "SetStaticRouteSyncHandler #
            map (\<lambda>node. DequeueIngestion (kind_name NodeObj @ ''/'' @ Name node) True) ?nodes @
            [Log Info ''Processing model for vrf context in full sync: %s'' [LStr ?vrf]]"
  show "\<forall>k b. DequeueIngestion k b \<in> set (takeWhile (\<lambda>x. x \<noteq> ?pub) (fst (FullSyncK8s e u y c)))
          \<longrightarrow> HasPrefix k (kind_name NodeObj @ ''/'')"
  proof (cases "DisableSync c")
    case True
    then show ?thesis by (simp add: FullSyncK8s_def)
  next
    case False
    have A: "\<forall>x \<in> set ?A. x \<noteq> ?pub" by auto
    have "\<exists>ys. fst (FullSyncK8s e u y c) = ?A @ ?pub # ys"
      using FullSyncK8s_enabled [OF assms False, of u y] FullSyncK8s_vrf_enabled [OF assms, of y]
      by simp
    then obtain ys where "fst (FullSyncK8s e u y c) = ?A @ ?pub # ys" ..
    then have "takeWhile (\<lambda>x. x \<noteq> ?pub) (fst (FullSyncK8s e u y c)) = ?A"
      using takeWhile_before_publish [OF A] by simp
    then show ?thesis by auto
  qed
  show "\<forall>k x. k \<noteq> NodeObj \<longrightarrow> \<not> HasPrefix (kind_name k @ ''/'' @ x) (kind_name NodeObj @ ''/'')"
    using not_node_key by blast
  show "\<not> DisableSync c \<longrightarrow>
         (\<exists>rest. \<forall>out. fst (FullSyncK8s e u (y\<lparr>StaticRouteSelect := out\<rparr>) c) =
            SetStaticRouteSyncHandler #
            map (\<lambda>node. DequeueIngestion (kind_name NodeObj @ ''/'' @ Name node) True) ?nodes @
            [Log Info ''Processing model for vrf context in full sync: %s'' [LStr ?vrf],
             ?pub,
             Select StaticRouteSyncChan 20 out,
             (case out of
                Signalled \<Rightarrow> Log Info ''Processing done for VRF'' []
              | TimedOut \<Rightarrow>
                  Log Warn ''Timed out while waiting for rest layer to respond, moving on with bootup'' [])] @
            rest)"
  proof
    assume on: "\<not> DisableSync c"
    have "fst (FullSyncK8s e u (y\<lparr>StaticRouteSelect := out\<rparr>) c) =
            SetStaticRouteSyncHandler #
            map (\<lambda>node. DequeueIngestion (kind_name NodeObj @ ''/'' @ Name node) True) ?nodes @
            [Log Info ''Processing model for vrf context in full sync: %s'' [LStr ?vrf],
             ?pub,
             Select StaticRouteSyncChan 20 out,
             (case out of
                Signalled \<Rightarrow> Log Info ''Processing done for VRF'' []
              | TimedOut \<Rightarrow>
                  Log Warn ''Timed out while waiting for rest layer to respond, moving on with bootup'' [])] @
            syncRest e u y" for out
      using FullSyncK8s_enabled [OF assms on, of u "y\<lparr>StaticRouteSelect := out\<rparr>"]
        FullSyncK8s_vrf_enabled [OF assms, of "y\<lparr>StaticRouteSelect := out\<rparr>"]
      by (simp add: syncRest_independent)
    then show "\<exists>rest. \<forall>out. fst (FullSyncK8s e u (y\<lparr>StaticRouteSelect := out\<rparr>) c) =
            SetStaticRouteSyncHandler #
            map (\<lambda>node. DequeueIngestion (kind_name NodeObj @ ''/'' @ Name node) True) ?nodes @
            [Log Info ''Processing model for vrf context in full sync: %s'' [LStr ?vrf],
             ?pub,
             Select StaticRouteSyncChan 20 out,
             (case out of
                Signalled \<Rightarrow> Log Info ''Processing done for VRF'' []
              | TimedOut \<Rightarrow>
                  Log Warn ''Timed out while waiting for rest layer to respond, moving on with bootup'' [])] @
            rest"
      by blast
  qed
qed

theorem FullSyncK8s_vrf_first_witness:
  "DequeueIngestion ''Service/ns1/svc'' True
     \<in> set (fst (FullSyncK8s (sample_env no_getenv) cluster_utils (sample_sync TimedOut)
                 \<lparr>DisableSync = False\<rparr>))
   \<and> DequeueIngestion ''Service/ns1/svc'' True
     \<notin> set (takeWhile (\<lambda>x. x \<noteq> PublishKeyToRestLayer ''admin/global'' ''fullsync'')
              (fst (FullSyncK8s (sample_env no_getenv) cluster_utils (sample_sync TimedOut)
                 \<lparr>DisableSync = False\<rparr>)))"
proof -
  let ?e = "sample_env no_getenv" and ?y = "sample_sync TimedOut" and ?c = "\<lparr>DisableSync = False\<rparr>"
  have en: "\<not> GetDisableStaticRoute ?e \<or> IsNodePortMode ?e"
    by (simp add: GetDisableStaticRoute_def sample_env_def no_getenv_def GetAdvancedL4_def
        GetCloudType_def ParseBool_ok_def IsNodePortMode_def GetServiceType_def NODE_PORT_def
        NodePortLocal_def)
  have vrf: "GetModelName (GetTenant ?e) (GetVrf ?e) = ''admin/global''"
    by (simp add: GetModelName_def GetTenant_def GetVrf_def sample_env_def no_getenv_def ADMIN_NS_def)
  note all = FullSyncK8s_vrf_first [OF en, of cluster_utils ?y ?c, THEN conjunct1, unfolded vrf]
  have np: "\<not> HasPrefix ''Service/ns1/svc'' (kind_name NodeObj @ ''/'')" by simp
  from all np have before: "DequeueIngestion ''Service/ns1/svc'' True
     \<notin> set (takeWhile (\<lambda>x. x \<noteq> PublishKeyToRestLayer ''admin/global'' ''fullsync'')
              (fst (FullSyncK8s ?e cluster_utils ?y ?c)))"
    by blast
  have svcs: "FullSyncK8s_objects ?e cluster_utils ?y =
      ([DequeueIngestion ''Service/ns1/svc'' True,
        Log Debug ''Dequeue for ingress key: %v'' [LStr ''Ingress/ns1/ing''],
        DequeueIngestion ''Ingress/ns1/ing'' True], None)"
    by (simp add: FullSyncK8s_objects_def FullSyncK8s_services_def FullSyncK8s_l7_def
        dequeueListed_def dequeueAll_def dequeueAccepted_def cluster_utils_def sample_utils_def
        sample_sync_def one_ns_lister_def sample_service_def meta_def isServiceLBType_def
        ObjKey_def any_ns_def sample_env_def no_getenv_def GetServiceType_def GetAdvancedL4_def
        UseServicesAPI_def ParseBool_ok_def GetLayer7Only_def NodePortLocal_def Let_def)
  have "DequeueIngestion ''Service/ns1/svc'' True \<in> set (fst (FullSyncK8s ?e cluster_utils ?y ?c))"
    by (simp add: FullSyncK8s_def svcs Let_def)
  with before show ?thesis by simp
qed

end
